theory Spec2Isabelle
  imports Main
begin

section \<open>Python values, exceptions and builtins used by the transaction handle\<close>

text \<open>
  The handle of \<^verbatim>\<open>woke/testing/transactions.py\<close> stores what the JSON-RPC backend
  answers, so the values are the values of JSON: \<open>PNone\<close> is Python's \<^verbatim>\<open>None\<close>
  (JSON \<^verbatim>\<open>null\<close>), a dict is an association list with string keys. Strings are
  ASCII byte strings.
\<close>

datatype pyval =
    PNone
  | PBool bool
  | PInt int
  | PStr string
  | PList "pyval list"
  | PDict "(string \<times> pyval) list"

text \<open>
  Objects built by the collaborators that are not under \<^verbatim>\<open>src/\<close> (decoded events,
  decoded return values, the payload of a revert error, an instance of the return type):
  a class name and the data the object was built from.
\<close>

datatype pyobj = Instance string pyval

type_synonym bytes = "nat list"

datatype exn =
    KeyError
  | TypeError
  | ValueError
  | IndexError
  | AttributeError
  | AssertionError
  | NotImplementedError
  | JsonRpcError pyval
  | TransactionRevertedError pyobj
  | TransportError string

text \<open>\<^verbatim>\<open>d[key]\<close> with a string key: only a dict supports it.\<close>

fun py_getitem :: "pyval \<Rightarrow> string \<Rightarrow> exn + pyval" where
  "py_getitem (PDict kvs) k = (case map_of kvs k of None \<Rightarrow> Inl KeyError | Some v \<Rightarrow> Inr v)"
| "py_getitem _ k = Inl TypeError"

text \<open>\<^verbatim>\<open>xs[0]\<close>: a list or a string can be indexed by an integer; a dict has no key 0.\<close>

fun py_getitem0 :: "pyval \<Rightarrow> exn + pyval" where
  "py_getitem0 (PList []) = Inl IndexError"
| "py_getitem0 (PList (x # xs)) = Inr x"
| "py_getitem0 (PStr []) = Inl IndexError"
| "py_getitem0 (PStr (ch # cs)) = Inr (PStr [ch])"
| "py_getitem0 (PDict kvs) = Inl KeyError"
| "py_getitem0 _ = Inl TypeError"

text \<open>
  \<^verbatim>\<open>x[2:]\<close>: slicing a string or a list; everything else raises (a dict raises
  \<^verbatim>\<open>TypeError\<close> too, a slice being unhashable).
\<close>

fun py_slice2 :: "pyval \<Rightarrow> exn + pyval" where
  "py_slice2 (PStr cs) = Inr (PStr (drop 2 cs))"
| "py_slice2 (PList xs) = Inr (PList (drop 2 xs))"
| "py_slice2 _ = Inl TypeError"

text \<open>\<^verbatim>\<open>len(x)\<close>.\<close>

fun py_len :: "pyval \<Rightarrow> exn + nat" where
  "py_len (PList xs) = Inr (length xs)"
| "py_len (PStr cs) = Inr (length cs)"
| "py_len (PDict kvs) = Inr (card (fst ` set kvs))"
| "py_len _ = Inl TypeError"

fun is_substring :: "string \<Rightarrow> string \<Rightarrow> bool" where
  "is_substring k [] = (k = [])"
| "is_substring k (ch # cs) = (take (length k) (ch # cs) = k \<or> is_substring k cs)"

text \<open>\<^verbatim>\<open>key in x\<close> for a string key.\<close>

fun py_contains :: "string \<Rightarrow> pyval \<Rightarrow> exn + bool" where
  "py_contains k (PDict kvs) = Inr (map_of kvs k \<noteq> None)"
| "py_contains k (PList xs) = Inr (PStr k \<in> set xs)"
| "py_contains k (PStr cs) = Inr (is_substring k cs)"
| "py_contains k _ = Inl TypeError"

text \<open>\<^verbatim>\<open>x.startswith("0x")\<close>: a method of strings only.\<close>

fun py_startswith_0x :: "pyval \<Rightarrow> exn + bool" where
  "py_startswith_0x (PStr cs) = Inr (take 2 cs = ''0x'')"
| "py_startswith_0x _ = Inl AttributeError"

definition is_space :: "char \<Rightarrow> bool" where
  "is_space ch = (ch \<in> set [CHR '' '', CHR 0x09, CHR 0x0A, CHR 0x0B, CHR 0x0C, CHR 0x0D])"

definition hex_digit_value :: "char \<Rightarrow> nat option" where
  "hex_digit_value = map_of
     [(CHR ''0'', 0), (CHR ''1'', 1), (CHR ''2'', 2), (CHR ''3'', 3), (CHR ''4'', 4),
      (CHR ''5'', 5), (CHR ''6'', 6), (CHR ''7'', 7), (CHR ''8'', 8), (CHR ''9'', 9),
      (CHR ''a'', 10), (CHR ''b'', 11), (CHR ''c'', 12), (CHR ''d'', 13), (CHR ''e'', 14),
      (CHR ''f'', 15), (CHR ''A'', 10), (CHR ''B'', 11), (CHR ''C'', 12), (CHR ''D'', 13),
      (CHR ''E'', 14), (CHR ''F'', 15)]"

text \<open>
  The digits of \<^verbatim>\<open>int(s, 16)\<close> after sign and prefix: hexadecimal digits with single
  underscores between them, up to the first other character. The result is the value
  read so far and the rest of the string; \<open>None\<close> is a syntax error (two underscores in
  a row, or an underscore at the end of the digits). \<open>prev\<close> tells whether the
  character before was an underscore.
\<close>

fun hex_scan :: "bool \<Rightarrow> nat \<Rightarrow> string \<Rightarrow> (nat \<times> string) option" where
  "hex_scan prev acc [] = (if prev then None else Some (acc, []))"
| "hex_scan prev acc (ch # cs) =
     (if ch = CHR ''_'' then (if prev then None else hex_scan True acc cs)
      else case hex_digit_value ch of
             Some d \<Rightarrow> hex_scan False (16 * acc + d) cs
           | None \<Rightarrow> (if prev then None else Some (acc, ch # cs)))"

definition strip_sign :: "string \<Rightarrow> bool \<times> string" where
  "strip_sign s =
     (case s of
        ch # cs \<Rightarrow> (if ch = CHR ''+'' then (False, cs)
                   else if ch = CHR ''-'' then (True, cs) else (False, s))
      | [] \<Rightarrow> (False, s))"

definition strip_0x :: "string \<Rightarrow> string" where
  "strip_0x s =
     (case s of
        z # x # cs \<Rightarrow>
          (if z = CHR ''0'' \<and> (x = CHR ''x'' \<or> x = CHR ''X'')
           then (case cs of u # ds \<Rightarrow> (if u = CHR ''_'' then ds else cs) | [] \<Rightarrow> cs)
           else s)
      | _ \<Rightarrow> s)"

text \<open>
  \<^verbatim>\<open>int(s, 16)\<close> on a string: leading whitespace, an optional sign, an optional
  \<^verbatim>\<open>0x\<close> prefix (with one underscore allowed after it), the digits, trailing
  whitespace.
\<close>

definition int16_str :: "string \<Rightarrow> int option" where
  "int16_str s =
     (let (neg, s1) = strip_sign (dropWhile is_space s);
          s2 = strip_0x s1
      in if take 1 s2 = ''_'' then None
         else case hex_scan False 0 s2 of
                None \<Rightarrow> None
              | Some (n, rest) \<Rightarrow>
                  if length rest = length s2 then None
                  else if dropWhile is_space rest \<noteq> [] then None
                  else Some (if neg then - int n else int n))"

text \<open>\<^verbatim>\<open>int(x, 16)\<close>: with an explicit base only a string is accepted.\<close>

fun py_int16 :: "pyval \<Rightarrow> exn + int" where
  "py_int16 (PStr s) = (case int16_str s of None \<Rightarrow> Inl ValueError | Some n \<Rightarrow> Inr n)"
| "py_int16 _ = Inl TypeError"

text \<open>
  \<^verbatim>\<open>bytes.fromhex(s)\<close> on a string: pairs of hexadecimal digits, ASCII whitespace
  skipped between the pairs.
\<close>

fun fromhex_str :: "string \<Rightarrow> bytes option" where
  "fromhex_str [] = Some []"
| "fromhex_str [ch] = (if is_space ch then Some [] else None)"
| "fromhex_str (ch # d # cs) =
     (if is_space ch then fromhex_str (d # cs)
      else case (hex_digit_value ch, hex_digit_value d) of
             (Some a, Some b) \<Rightarrow> map_option ((#) (16 * a + b)) (fromhex_str cs)
           | _ \<Rightarrow> None)"

fun bytes_fromhex :: "pyval \<Rightarrow> exn + bytes" where
  "bytes_fromhex (PStr s) = (case fromhex_str s of None \<Rightarrow> Inl ValueError | Some bs \<Rightarrow> Inr bs)"
| "bytes_fromhex _ = Inl TypeError"

text \<open>Sequencing of computations that may raise.\<close>

definition and_then :: "exn + 'a \<Rightarrow> ('a \<Rightarrow> exn + 'b) \<Rightarrow> exn + 'b" where
  "and_then r f = (case r of Inl e \<Rightarrow> Inl e | Inr v \<Rightarrow> f v)"

section \<open>The handle, the chain and the backend\<close>

datatype TransactionStatusEnum = PENDING | SUCCESS | FAILURE

datatype TransactionTypeEnum = LEGACY | EIP2930 | EIP1559

text \<open>
  The concrete class of \<^verbatim>\<open>chain.dev_chain\<close>, which the handle tests with
  \<^verbatim>\<open>isinstance\<close>. \<open>OtherDevChain\<close> is a development chain of none of the three
  classes (the \<^verbatim>\<open>else\<close> branches of the source).
\<close>

datatype dev_chain_class = AnvilDevChain | GanacheDevChain | HardhatDevChain | OtherDevChain

text \<open>
  What the handle does to the outside world, in order: the calls to the backend with
  their arguments, and \<^verbatim>\<open>time.sleep(0.25)\<close> as \<open>Sleep 250\<close> (milliseconds).
\<close>

datatype rpc_event =
    GetTransaction string
  | GetTransactionReceipt string
  | Call pyval
  | TraceTransaction string
  | DebugTraceTransaction string pyval
  | Sleep nat

text \<open>
  The chain interface of the handle. Its classes are not under \<^verbatim>\<open>src/\<close>, so each
  operation is a parameter: a function from the arguments to a value or an exception.
  The answer to \<^verbatim>\<open>get_transaction_receipt\<close> changes while the transaction is being
  mined, so it also depends on how many times the receipt has been asked for before.
  \<open>new_instance cls addr\<close> is the call \<^verbatim>\<open>cls(addr, chain)\<close> of a class.
\<close>

record chain_interface =
  dev_chain :: dev_chain_class
  get_transaction :: "string \<Rightarrow> exn + pyval"
  get_transaction_receipt :: "nat \<Rightarrow> string \<Rightarrow> exn + pyval"
  call :: "pyval \<Rightarrow> exn + pyval"
  trace_transaction :: "string \<Rightarrow> exn + pyval"
  debug_trace_transaction :: "string \<Rightarrow> pyval \<Rightarrow> exn + pyval"
  process_console_logs :: "pyval \<Rightarrow> exn + pyobj list"
  process_events :: "string \<Rightarrow> pyval \<Rightarrow> string \<Rightarrow> exn + pyobj list"
  process_revert_data :: "string \<Rightarrow> bytes \<Rightarrow> string \<Rightarrow> exn + unit"
  process_return_data :: "bytes \<Rightarrow> pyval \<Rightarrow> string \<Rightarrow> exn + pyobj"
  new_instance :: "string \<Rightarrow> pyval \<Rightarrow> exn + pyobj"

text \<open>
  \<^verbatim>\<open>TransactionAbc\<close>: the fields set by \<^verbatim>\<open>__init__\<close> (the leading underscore of the
  source is written \<open>p_\<close>), and \<open>rpc_log\<close>, the events the handle has caused so far.
  The field \<^verbatim>\<open>_chain\<close> never changes and is passed beside the handle.
\<close>

record transaction =
  p_tx_hash :: string
  p_tx_params :: pyval
  p_abi :: pyval
  p_return_type :: string
  p_recipient_fqn :: "string option"
  p_tx_data :: pyval
  p_tx_receipt :: pyval
  p_trace_transaction :: pyval
  p_debug_trace_transaction :: pyval
  p_error :: "exn option"
  p_events :: "pyobj list option"
  rpc_log :: "rpc_event list"

definition init :: "string \<Rightarrow> pyval \<Rightarrow> pyval \<Rightarrow> string \<Rightarrow> string option \<Rightarrow> transaction" where
  "init tx_hash tx_params abi return_type recipient_fqn =
     \<lparr> p_tx_hash = tx_hash, p_tx_params = tx_params, p_abi = abi,
       p_return_type = return_type, p_recipient_fqn = recipient_fqn,
       p_tx_data = PNone, p_tx_receipt = PNone, p_trace_transaction = PNone,
       p_debug_trace_transaction = PNone, p_error = None, p_events = None,
       rpc_log = [] \<rparr>"

definition emit :: "rpc_event \<Rightarrow> transaction \<Rightarrow> transaction" where
  "emit ev s = s\<lparr>rpc_log := rpc_log s @ [ev]\<rparr>"


fun is_receipt_poll :: "rpc_event \<Rightarrow> bool" where
  "is_receipt_poll (GetTransactionReceipt h) = True"
| "is_receipt_poll _ = False"

fun is_call :: "rpc_event \<Rightarrow> bool" where
  "is_call (Call params) = True"
| "is_call _ = False"




text \<open>How many events of one kind the handle has caused so far.\<close>

definition fetches :: "(rpc_event \<Rightarrow> bool) \<Rightarrow> transaction \<Rightarrow> nat" where
  "fetches P s = length (filter P (rpc_log s))"

definition receipt_polls :: "transaction \<Rightarrow> nat" where
  "receipt_polls s = fetches is_receipt_poll s"

section \<open>Status and wait\<close>

text \<open>
  Lines 178 to 181 of \<^verbatim>\<open>status\<close>: the status read from the cached receipt;
  \<open>status_flag\<close> is \<^verbatim>\<open>int(self._tx_receipt["status"], 16)\<close>.
\<close>

definition status_flag :: "pyval \<Rightarrow> exn + int" where
  "status_flag receipt = and_then (py_getitem receipt ''status'') py_int16"

definition receipt_status :: "pyval \<Rightarrow> exn + TransactionStatusEnum" where
  "receipt_status receipt =
     and_then (status_flag receipt) (\<lambda>n. Inr (if n = 0 then FAILURE else SUCCESS))"

definition status ::
  "chain_interface \<Rightarrow> transaction \<Rightarrow> (exn + TransactionStatusEnum) \<times> transaction" where
  "status c s =
     (if p_tx_receipt s = PNone then
        (let s1 = emit (GetTransactionReceipt (p_tx_hash s)) s in
         case get_transaction_receipt c (receipt_polls s) (p_tx_hash s) of
           Inl e \<Rightarrow> (Inl e, s1)
         | Inr receipt \<Rightarrow>
             if receipt = PNone then (Inr PENDING, s1)
             else (receipt_status receipt, s1\<lparr>p_tx_receipt := receipt\<rparr>))
      else (receipt_status (p_tx_receipt s), s))"

text \<open>
  The \<^verbatim>\<open>for _ in range(40)\<close> loop of \<^verbatim>\<open>wait\<close>: the result \<open>True\<close> says that the
  loop returned from \<^verbatim>\<open>wait\<close>, \<open>False\<close> that all checks saw PENDING.
\<close>

fun wait_checks ::
  "nat \<Rightarrow> chain_interface \<Rightarrow> transaction \<Rightarrow> (exn + bool) \<times> transaction" where
  "wait_checks 0 c s = (Inr False, s)"
| "wait_checks (Suc n) c s =
     (case status c s of
        (Inl e, s1) \<Rightarrow> (Inl e, s1)
      | (Inr st, s1) \<Rightarrow> if st \<noteq> PENDING then (Inr True, s1) else wait_checks n c s1)"

text \<open>
  The \<^verbatim>\<open>while self.status == PENDING: time.sleep(0.25)\<close> loop. It has no bound, so
  it is a partial function: \<open>None\<close> means that it never returns.
\<close>

partial_function (option) wait_sleep ::
  "chain_interface \<Rightarrow> transaction \<Rightarrow> ((exn + unit) \<times> transaction) option" where
  "wait_sleep c s =
     (case status c s of
        (Inl e, s1) \<Rightarrow> Some (Inl e, s1)
      | (Inr st, s1) \<Rightarrow>
          if st = PENDING then wait_sleep c (emit (Sleep 250) s1) else Some (Inr (), s1))"

declare wait_sleep.simps [code]

definition wait ::
  "chain_interface \<Rightarrow> transaction \<Rightarrow> ((exn + unit) \<times> transaction) option" where
  "wait c s =
     (case wait_checks 40 c s of
        (Inl e, s1) \<Rightarrow> Some (Inl e, s1)
      | (Inr done, s1) \<Rightarrow> if done then Some (Inr (), s1) else wait_sleep c s1)"

section \<open>The decorators and the cached fetches\<close>

text \<open>
  \<^verbatim>\<open>_fetch_tx_data(f)\<close>: the wrapped accessor \<open>f\<close> only reads the handle.
\<close>

definition fetch_tx_data ::
  "(chain_interface \<Rightarrow> transaction \<Rightarrow> exn + 'a) \<Rightarrow>
   chain_interface \<Rightarrow> transaction \<Rightarrow> (exn + 'a) \<times> transaction" where
  "fetch_tx_data f c s =
     (if p_tx_data s = PNone then
        (let s1 = emit (GetTransaction (p_tx_hash s)) s in
         case get_transaction c (p_tx_hash s) of
           Inl e \<Rightarrow> (Inl e, s1)
         | Inr d \<Rightarrow> (f c (s1\<lparr>p_tx_data := d\<rparr>), s1\<lparr>p_tx_data := d\<rparr>))
      else (f c s, s))"

text \<open>
  \<^verbatim>\<open>_fetch_tx_receipt(f)\<close>: the wrapped accessor may change the handle, and
  \<^verbatim>\<open>wait\<close> may never return.
\<close>

definition fetch_tx_receipt ::
  "(chain_interface \<Rightarrow> transaction \<Rightarrow> ((exn + 'a) \<times> transaction) option) \<Rightarrow>
   chain_interface \<Rightarrow> transaction \<Rightarrow> ((exn + 'a) \<times> transaction) option" where
  "fetch_tx_receipt f c s =
     (case (if p_tx_receipt s = PNone then wait c s else Some (Inr (), s)) of
        None \<Rightarrow> None
      | Some (Inl e, s1) \<Rightarrow> Some (Inl e, s1)
      | Some (Inr u, s1) \<Rightarrow>
          if p_tx_receipt s1 = PNone then Some (Inl AssertionError, s1) else f c s1)"

definition fetch_trace_transaction ::
  "chain_interface \<Rightarrow> transaction \<Rightarrow> (exn + unit) \<times> transaction" where
  "fetch_trace_transaction c s =
     (if p_trace_transaction s = PNone then
        (if dev_chain c \<noteq> AnvilDevChain then (Inl AssertionError, s)
         else
           (let s1 = emit (TraceTransaction (p_tx_hash s)) s in
            case trace_transaction c (p_tx_hash s) of
              Inl e \<Rightarrow> (Inl e, s1)
            | Inr t \<Rightarrow> (Inr (), s1\<lparr>p_trace_transaction := t\<rparr>)))
      else (Inr (), s))"

definition fetch_debug_trace_transaction ::
  "chain_interface \<Rightarrow> transaction \<Rightarrow> (exn + unit) \<times> transaction" where
  "fetch_debug_trace_transaction c s =
     (if p_debug_trace_transaction s = PNone then
        (let s1 = emit (DebugTraceTransaction (p_tx_hash s) (PDict [(''enableMemory'', PBool True)])) s in
         case debug_trace_transaction c (p_tx_hash s) (PDict [(''enableMemory'', PBool True)]) of
           Inl e \<Rightarrow> (Inl e, s1)
         | Inr t \<Rightarrow> (Inr (), s1\<lparr>p_debug_trace_transaction := t\<rparr>))
      else (Inr (), s))"

section \<open>Accessors of the raw transaction data and of the receipt\<close>


definition tx_data_int :: "string \<Rightarrow> chain_interface \<Rightarrow> transaction \<Rightarrow> exn + int" where
  "tx_data_int k c s = and_then (py_getitem (p_tx_data s) k) py_int16"

definition tx_data_account :: "string \<Rightarrow> chain_interface \<Rightarrow> transaction \<Rightarrow> exn + pyobj" where
  "tx_data_account k c s = and_then (py_getitem (p_tx_data s) k) (new_instance c ''Account'')"

definition tx_hash :: "transaction \<Rightarrow> string" where
  "tx_hash s = p_tx_hash s"




definition to :: "chain_interface \<Rightarrow> transaction \<Rightarrow> (exn + pyobj) \<times> transaction" where
  "to = fetch_tx_data (tx_data_account ''to'')"










text \<open>\<^verbatim>\<open>LegacyTransaction\<close>: the accessors \<^verbatim>\<open>v\<close>, \<^verbatim>\<open>gas_price\<close> and \<^verbatim>\<open>type\<close>.\<close>

definition sig_v :: "chain_interface \<Rightarrow> transaction \<Rightarrow> (exn + int) \<times> transaction" where
  "sig_v = fetch_tx_data (tx_data_int ''v'')"

definition gas_price :: "chain_interface \<Rightarrow> transaction \<Rightarrow> (exn + int) \<times> transaction" where
  "gas_price = fetch_tx_data (tx_data_int ''gasPrice'')"

definition type_body :: "chain_interface \<Rightarrow> transaction \<Rightarrow> exn + TransactionTypeEnum" where
  "type_body c s =
     and_then (tx_data_int ''type'' c s)
       (\<lambda>n. if n = 0 then Inr LEGACY else Inl AssertionError)"

definition type ::
  "chain_interface \<Rightarrow> transaction \<Rightarrow> (exn + TransactionTypeEnum) \<times> transaction" where
  "type = fetch_tx_data type_body"

section \<open>Console logs and events\<close>



definition events_body ::
  "chain_interface \<Rightarrow> transaction \<Rightarrow> (exn + pyobj list) \<times> transaction" where
  "events_body c s =
     (case p_events s of
        Some es \<Rightarrow> (Inr es, s)
      | None \<Rightarrow>
          if p_tx_receipt s = PNone then (Inl AssertionError, s)
          else
            (case p_recipient_fqn s of
               None \<Rightarrow>
                 (case and_then (py_getitem (p_tx_receipt s) ''logs'') py_len of
                    Inl e \<Rightarrow> (Inl e, s)
                  | Inr n \<Rightarrow>
                      if n = 0 then (Inr [], s\<lparr>p_events := Some []\<rparr>)
                      else (Inl AssertionError, s))
             | Some fqn \<Rightarrow>
                 (case and_then (py_getitem (p_tx_receipt s) ''logs'')
                         (\<lambda>logs. process_events c (p_tx_hash s) logs fqn) of
                    Inl e \<Rightarrow> (Inl e, s)
                  | Inr es \<Rightarrow> (Inr es, s\<lparr>p_events := Some es\<rparr>))))"

definition events ::
  "chain_interface \<Rightarrow> transaction \<Rightarrow> ((exn + pyobj list) \<times> transaction) option" where
  "events = fetch_tx_receipt (\<lambda>c s. Some (events_body c s))"








section \<open>The decoded error and the return value\<close>

text \<open>
  Lines 272 to 280 of \<^verbatim>\<open>error\<close>, the body of the inner \<^verbatim>\<open>try\<close>: the revert payload
  taken from \<^verbatim>\<open>e.data\<close> at the depth of the development chain's class, without its
  \<^verbatim>\<open>0x\<close> prefix.
\<close>

definition extract_revert_data :: "dev_chain_class \<Rightarrow> pyval \<Rightarrow> exn + pyval" where
  "extract_revert_data k e_data =
     and_then
       (if k = AnvilDevChain \<or> k = GanacheDevChain then py_getitem e_data ''data''
        else if k = HardhatDevChain then
          and_then (py_getitem e_data ''data'') (\<lambda>d. py_getitem d ''data'')
        else Inl NotImplementedError)
       (\<lambda>revert_data.
          and_then (py_startswith_0x revert_data)
            (\<lambda>b. if b then py_slice2 revert_data else Inr revert_data))"

text \<open>Lines 284 to 291 of \<^verbatim>\<open>error\<close>: the second \<^verbatim>\<open>try\<close>.\<close>

definition decode_revert ::
  "chain_interface \<Rightarrow> pyval \<Rightarrow> transaction \<Rightarrow> (exn + exn option) \<times> transaction" where
  "decode_revert c revert_data s =
     (case p_recipient_fqn s of
        None \<Rightarrow> (Inl AssertionError, s)
      | Some fqn \<Rightarrow>
          (case and_then (bytes_fromhex revert_data)
                  (\<lambda>bs. process_revert_data c (p_tx_hash s) bs fqn) of
             Inr u \<Rightarrow> (Inr None, s)
           | Inl x \<Rightarrow>
               (case x of
                  TransactionRevertedError ob \<Rightarrow> (Inr (Some x), s\<lparr>p_error := Some x\<rparr>)
                | _ \<Rightarrow> (Inl x, s))))"

text \<open>Lines 264 to 282 of \<^verbatim>\<open>error\<close>: the replayed call and its \<^verbatim>\<open>except\<close> clause.\<close>

definition replay_call ::
  "chain_interface \<Rightarrow> transaction \<Rightarrow> (exn + pyval) \<times> transaction" where
  "replay_call c s =
     (let s1 = emit (Call (p_tx_params s)) s in
      case call c (p_tx_params s) of
        Inr ret \<Rightarrow> (Inl AssertionError, s1)
      | Inl x \<Rightarrow>
          (case x of
             JsonRpcError e_data \<Rightarrow>
               (case extract_revert_data (dev_chain c) e_data of
                  Inl y \<Rightarrow> (Inl x, s1)
                | Inr revert_data \<Rightarrow> (Inr revert_data, s1))
           | _ \<Rightarrow> (Inl x, s1)))"

definition error_body ::
  "chain_interface \<Rightarrow> transaction \<Rightarrow> (exn + exn option) \<times> transaction" where
  "error_body c s =
     (case status c s of
        (Inl e, s1) \<Rightarrow> (Inl e, s1)
      | (Inr st, s1) \<Rightarrow>
          if st = SUCCESS then (Inr None, s1)
          else
            (case p_error s1 of
               Some e \<Rightarrow> (Inr (Some e), s1)
             | None \<Rightarrow>
                 (case replay_call c s1 of
                    (Inl e, s2) \<Rightarrow> (Inl e, s2)
                  | (Inr revert_data, s2) \<Rightarrow> decode_revert c revert_data s2)))"

definition error ::
  "chain_interface \<Rightarrow> transaction \<Rightarrow> ((exn + exn option) \<times> transaction) option" where
  "error = fetch_tx_receipt (\<lambda>c s. Some (error_body c s))"

text \<open>
  Lines 302 to 305 of \<^verbatim>\<open>return_value\<close>: whether the receipt has a contract address
  that is not \<^verbatim>\<open>None\<close>.
\<close>

definition has_contract_address :: "pyval \<Rightarrow> exn + bool" where
  "has_contract_address receipt =
     and_then (py_contains ''contractAddress'' receipt)
       (\<lambda>present. if present
          then and_then (py_getitem receipt ''contractAddress'') (\<lambda>a. Inr (a \<noteq> PNone))
          else Inr False)"

text \<open>Lines 310 to 324 of \<^verbatim>\<open>return_value\<close>: the output decoded from a trace.\<close>

definition trace_output :: "pyval \<Rightarrow> exn + bytes" where
  "trace_output trace =
     and_then (and_then (and_then (and_then (py_getitem0 trace)
       (\<lambda>frame. py_getitem frame ''result''))
       (\<lambda>res. py_getitem res ''output''))
       py_slice2)
       bytes_fromhex"

definition debug_trace_output :: "pyval \<Rightarrow> exn + bytes" where
  "debug_trace_output trace = and_then (py_getitem trace ''returnValue'') bytes_fromhex"

definition decode_return ::
  "chain_interface \<Rightarrow> transaction \<Rightarrow> (exn + pyobj) \<times> transaction" where
  "decode_return c s =
     (if dev_chain c = AnvilDevChain then
        (case fetch_trace_transaction c s of
           (Inl e, s1) \<Rightarrow> (Inl e, s1)
         | (Inr u, s1) \<Rightarrow>
             if p_trace_transaction s1 = PNone then (Inl AssertionError, s1)
             else (and_then (trace_output (p_trace_transaction s1))
                     (\<lambda>output. process_return_data c output (p_abi s1) (p_return_type s1)), s1))
      else
        (case fetch_debug_trace_transaction c s of
           (Inl e, s1) \<Rightarrow> (Inl e, s1)
         | (Inr u, s1) \<Rightarrow>
             if p_debug_trace_transaction s1 = PNone then (Inl AssertionError, s1)
             else (and_then (debug_trace_output (p_debug_trace_transaction s1))
                     (\<lambda>output. process_return_data c output (p_abi s1) (p_return_type s1)), s1)))"

definition return_value_body ::
  "chain_interface \<Rightarrow> transaction \<Rightarrow> ((exn + pyobj) \<times> transaction) option" where
  "return_value_body c s =
     (case status c s of
        (Inl e, s1) \<Rightarrow> Some (Inl e, s1)
      | (Inr st, s1) \<Rightarrow>
          if st \<noteq> SUCCESS then
            (case error c s1 of
               None \<Rightarrow> None
             | Some (Inl x, s2) \<Rightarrow> Some (Inl x, s2)
             | Some (Inr None, s2) \<Rightarrow> Some (Inl AssertionError, s2)
             | Some (Inr (Some e), s2) \<Rightarrow> Some (Inl e, s2))
          else if p_tx_receipt s1 = PNone then Some (Inl AssertionError, s1)
          else
            (case has_contract_address (p_tx_receipt s1) of
               Inl x \<Rightarrow> Some (Inl x, s1)
             | Inr created \<Rightarrow>
                 if created then
                   Some (and_then (py_getitem (p_tx_receipt s1) ''contractAddress'')
                           (new_instance c (p_return_type s1)), s1)
                 else if p_abi s1 = PNone then Some (Inl AssertionError, s1)
                 else Some (decode_return c s1)))"

definition return_value ::
  "chain_interface \<Rightarrow> transaction \<Rightarrow> ((exn + pyobj) \<times> transaction) option" where
  "return_value = fetch_tx_receipt return_value_body"

section \<open>Notions used to state the properties\<close>

text \<open>
  The receipt that \<^verbatim>\<open>status\<close> looks at: the cached one, or else the backend's answer
  to this poll.
\<close>

definition observed_receipt :: "chain_interface \<Rightarrow> transaction \<Rightarrow> exn + pyval" where
  "observed_receipt c s =
     (if p_tx_receipt s = PNone then get_transaction_receipt c (receipt_polls s) (p_tx_hash s)
      else Inr (p_tx_receipt s))"

text \<open>The fields fixed at construction are the same in both states.\<close>

definition same_handle :: "transaction \<Rightarrow> transaction \<Rightarrow> bool" where
  "same_handle s s' =
     (p_tx_hash s' = p_tx_hash s \<and> p_tx_params s' = p_tx_params s \<and> p_abi s' = p_abi s \<and>
      p_return_type s' = p_return_type s \<and> p_recipient_fqn s' = p_recipient_fqn s)"





text \<open>\<^verbatim>\<open>revert_data[2:] if revert_data.startswith("0x") else revert_data\<close> on a string.\<close>

definition strip_0x_prefix :: "string \<Rightarrow> string" where
  "strip_0x_prefix p = (if take 2 p = ''0x'' then drop 2 p else p)"

text \<open>
  What \<^verbatim>\<open>wait\<close> adds to the log when the receipt arrives at its poll number \<open>k\<close>
  (counted from 0): polls only when \<open>k < 40\<close>, and otherwise 40 polls, then a poll
  followed by a sleep of 250 ms for each further poll without a receipt, then the poll
  that finds the receipt.
\<close>

definition wait_events :: "string \<Rightarrow> nat \<Rightarrow> rpc_event list" where
  "wait_events h k =
     (if k < 40 then replicate (Suc k) (GetTransactionReceipt h)
      else replicate 40 (GetTransactionReceipt h)
           @ concat (replicate (k - 40) [GetTransactionReceipt h, Sleep 250])
           @ [GetTransactionReceipt h])"

text \<open>
  The raw transaction data that an accessor under \<^verbatim>\<open>_fetch_tx_data\<close> reads: the
  cached data, or else the backend's answer.
\<close>

definition observed_tx_data :: "chain_interface \<Rightarrow> transaction \<Rightarrow> exn + pyval" where
  "observed_tx_data c s =
     (if p_tx_data s = PNone then get_transaction c (p_tx_hash s) else Inr (p_tx_data s))"

text \<open>
  What the decoded-error accessor makes of the outcome of \<^verbatim>\<open>_process_revert_data\<close>:
  a \<^verbatim>\<open>TransactionRevertedError\<close> is returned (and cached), any other exception is
  raised, and a normal return gives \<^verbatim>\<open>None\<close>.
\<close>

definition revert_outcome :: "exn + unit \<Rightarrow> exn + exn option" where
  "revert_outcome r =
     (case r of
        Inr u \<Rightarrow> Inr None
      | Inl x \<Rightarrow> (case x of TransactionRevertedError ob \<Rightarrow> Inr (Some x) | _ \<Rightarrow> Inl x))"

text \<open>
  Lines 42 and 43 of \<^verbatim>\<open>_fetch_tx_receipt\<close>: the handle once its receipt is there
  (\<^verbatim>\<open>wait\<close> is called only when no receipt is cached).
\<close>

definition receipt_ready ::
  "chain_interface \<Rightarrow> transaction \<Rightarrow> ((exn + unit) \<times> transaction) option" where
  "receipt_ready c s = (if p_tx_receipt s = PNone then wait c s else Some (Inr (), s))"

text \<open>Only the receipt slot and the log differ between the two states.\<close>

definition only_receipt :: "transaction \<Rightarrow> transaction \<Rightarrow> bool" where
  "only_receipt s s' =
     (same_handle s s' \<and> p_tx_data s' = p_tx_data s \<and>
      p_trace_transaction s' = p_trace_transaction s \<and>
      p_debug_trace_transaction s' = p_debug_trace_transaction s \<and>
      p_error s' = p_error s \<and> p_events s' = p_events s)"

text \<open>The handle after further events.\<close>

definition logged :: "rpc_event list \<Rightarrow> transaction \<Rightarrow> transaction" where
  "logged evs s = s\<lparr>rpc_log := rpc_log s @ evs\<rparr>"

section \<open>A concrete backend and handle\<close>

definition demo_receipt :: "string \<Rightarrow> pyval \<Rightarrow> pyval \<Rightarrow> pyval" where
  "demo_receipt flag address logs =
     PDict [(''status'', PStr flag), (''contractAddress'', address), (''logs'', logs),
            (''gasUsed'', PStr ''0x5208''), (''cumulativeGasUsed'', PStr ''0x5208'')]"

definition demo_tx_data :: "string \<Rightarrow> pyval" where
  "demo_tx_data ty =
     PDict [(''type'', PStr ty), (''gasPrice'', PStr ''0x3b9aca00''), (''v'', PStr ''0x1b''),
            (''blockHash'', PStr ''0xb10c''), (''blockNumber'', PStr ''0x10''),
            (''gas'', PStr ''0x5208''), (''nonce'', PStr ''0x0'')]"

definition revert_payload :: pyval where
  "revert_payload = PStr ''0x08c379a0''"

text \<open>
  A backend of class \<open>k\<close> that answers the first \<open>mined_at\<close> receipt polls with
  \<^verbatim>\<open>None\<close> and then with \<open>receipt\<close>; the replayed call fails with the revert payload
  at the depth the class uses; the debug trace is given only when it is asked for with
  the options \<^verbatim>\<open>{"enableMemory": True}\<close>; the codec keeps the bytes it is given.
\<close>

definition demo_chain :: "dev_chain_class \<Rightarrow> nat \<Rightarrow> pyval \<Rightarrow> string \<Rightarrow> chain_interface" where
  "demo_chain k mined_at receipt ty =
     \<lparr> dev_chain = k,
       get_transaction = (\<lambda>h. Inr (demo_tx_data ty)),
       get_transaction_receipt = (\<lambda>n h. Inr (if n < mined_at then PNone else receipt)),
       call = (\<lambda>params. Inl (JsonRpcError (PDict [(''code'', PInt 3), (''data'',
                 if k = HardhatDevChain then PDict [(''data'', revert_payload)]
                 else revert_payload)]))),
       trace_transaction =
         (\<lambda>h. Inr (PList [PDict [(''result'', PDict [(''output'', PStr ''0x002a'')])]])),
       debug_trace_transaction =
         (\<lambda>h opts. if opts = PDict [(''enableMemory'', PBool True)]
            then Inr (PDict [(''returnValue'', PStr ''002a'')])
            else Inl (TransportError ''options'')),
       process_console_logs = (\<lambda>trace. Inr []),
       process_events = (\<lambda>h logs fqn. Inr [Instance ''Event'' logs]),
       process_revert_data =
         (\<lambda>h bs fqn. Inl (TransactionRevertedError (Instance ''Error'' (PList (map (\<lambda>b. PInt (int b)) bs))))),
       process_return_data =
         (\<lambda>bs abi0 cls. Inr (Instance cls (PList (map (\<lambda>b. PInt (int b)) bs)))),
       new_instance = (\<lambda>cls address. Inr (Instance cls address)) \<rparr>"

definition demo_handle :: "pyval \<Rightarrow> string option \<Rightarrow> transaction" where
  "demo_handle abi0 recipient =
     init ''0xabc'' (PDict [(''to'', PStr ''0x01''), (''data'', PStr ''0x'')]) abi0 ''Counter'' recipient"

definition demo_success :: pyval where
  "demo_success = demo_receipt ''0x1'' PNone (PList [])"

definition demo_failure :: pyval where
  "demo_failure = demo_receipt ''0x0'' PNone (PList [])"

definition demo_error :: exn where
  "demo_error =
     TransactionRevertedError (Instance ''Error'' (PList [PInt 8, PInt 195, PInt 121, PInt 160]))"

text \<open>The handle after one poll has found the receipt \<open>r\<close>.\<close>

definition demo_mined :: "pyval \<Rightarrow> string option \<Rightarrow> pyval \<Rightarrow> transaction" where
  "demo_mined abi0 rcp r =
     (demo_handle abi0 rcp)\<lparr>p_tx_receipt := r, rpc_log := [GetTransactionReceipt ''0xabc'']\<rparr>"

section \<open>Evaluation of the concrete backend\<close>

lemma demo_flag_0: "status_flag (demo_receipt ''0x0'' a l) = Inr 0"
  by (simp add: status_flag_def demo_receipt_def and_then_def int16_str_def strip_sign_def
      strip_0x_def is_space_def hex_digit_value_def)

lemma demo_flag_1: "status_flag (demo_receipt ''0x1'' a l) = Inr 1"
  by (simp add: status_flag_def demo_receipt_def and_then_def int16_str_def strip_sign_def
      strip_0x_def is_space_def hex_digit_value_def)

lemma demo_receipt_not_None: "demo_receipt flag a l \<noteq> PNone"
  by (simp add: demo_receipt_def)

lemma observed_receipt_demo:
  "observed_receipt (demo_chain k m r ty) (demo_handle abi0 rcp) = Inr (if 0 < m then PNone else r)"
  by (simp add: observed_receipt_def demo_chain_def demo_handle_def init_def
      receipt_polls_def fetches_def)

section \<open>Status\<close>

lemma receipt_status_not_PENDING: "receipt_status r \<noteq> Inr PENDING"
  by (auto simp: receipt_status_def and_then_def split: sum.splits)

text \<open>
  Claim C1. The status is derived from the receipt alone. When the receipt that
  \<^verbatim>\<open>status\<close> looks at (the cached one, or the backend's answer) is \<^verbatim>\<open>None\<close>, the
  status is PENDING; when it is present and its status flag parses to zero, the status
  is FAILURE; when the flag parses to a nonzero number, the status is SUCCESS. The
  receipt cache afterwards holds exactly that receipt, so a PENDING observation leaves
  the cache empty.
\<close>

theorem status_from_receipt:
  "observed_receipt c s = Inr receipt \<Longrightarrow>
     (receipt = PNone \<longrightarrow> fst (status c s) = Inr PENDING) \<and>
     (receipt \<noteq> PNone \<and> status_flag receipt = Inr 0 \<longrightarrow> fst (status c s) = Inr FAILURE) \<and>
     (\<forall>n. receipt \<noteq> PNone \<and> status_flag receipt = Inr n \<and> n \<noteq> 0 \<longrightarrow>
        fst (status c s) = Inr SUCCESS) \<and>
     p_tx_receipt (snd (status c s)) = receipt \<and>
     (fst (status c s) = Inr PENDING \<longrightarrow> p_tx_receipt (snd (status c s)) = PNone)"
  by (auto simp: observed_receipt_def status_def Let_def emit_def receipt_status_def and_then_def
      split: if_splits sum.splits)

theorem status_from_receipt_witness:
  "fst (status (demo_chain AnvilDevChain 1 demo_success ''0x0'') (demo_handle PNone None))
     = Inr PENDING \<and>
   p_tx_receipt (snd (status (demo_chain AnvilDevChain 1 demo_success ''0x0'')
     (demo_handle PNone None))) = PNone \<and>
   fst (status (demo_chain AnvilDevChain 0 demo_failure ''0x0'') (demo_handle PNone None))
     = Inr FAILURE \<and>
   fst (status (demo_chain AnvilDevChain 0 demo_success ''0x0'') (demo_handle PNone None))
     = Inr SUCCESS"
proof -
  let ?s = "demo_handle PNone None"
  have p: "observed_receipt (demo_chain AnvilDevChain 1 demo_success ''0x0'') ?s = Inr PNone"
    by (simp add: observed_receipt_demo)
  have f: "observed_receipt (demo_chain AnvilDevChain 0 demo_failure ''0x0'') ?s
             = Inr demo_failure"
    by (simp add: observed_receipt_demo)
  have g: "observed_receipt (demo_chain AnvilDevChain 0 demo_success ''0x0'') ?s
             = Inr demo_success"
    by (simp add: observed_receipt_demo)
  have flags: "status_flag demo_failure = Inr 0" "status_flag demo_success = Inr 1"
    "demo_failure \<noteq> PNone" "demo_success \<noteq> PNone"
    by (simp_all add: demo_failure_def demo_success_def demo_flag_0 demo_flag_1
        demo_receipt_not_None)
  show ?thesis
    using status_from_receipt [OF p] status_from_receipt [OF f] status_from_receipt [OF g] flags
    by simp
qed

section \<open>Populated cache slots are kept\<close>



























section \<open>The two phases of wait\<close>

lemma logged_Nil: "logged [] s = s"
  by (simp add: logged_def)

lemma logged_logged: "logged ys (logged xs s) = logged (xs @ ys) s"
  by (simp add: logged_def)

lemma emit_logged: "emit ev s = logged [ev] s"
  by (simp add: emit_def logged_def)

lemma logged_fields:
  "p_tx_receipt (logged evs s) = p_tx_receipt s" "p_tx_hash (logged evs s) = p_tx_hash s"
  "rpc_log (logged evs s) = rpc_log s @ evs"
  by (simp_all add: logged_def)

lemma receipt_polls_logged:
  "receipt_polls (logged evs s) = receipt_polls s + length (filter is_receipt_poll evs)"
  by (simp add: receipt_polls_def fetches_def logged_def)

lemma status_cached: "p_tx_receipt s \<noteq> PNone \<Longrightarrow> status c s = (receipt_status (p_tx_receipt s), s)"
  by (simp add: status_def)

lemma status_poll_pending:
  "p_tx_receipt s = PNone \<Longrightarrow> get_transaction_receipt c (receipt_polls s) (p_tx_hash s) = Inr PNone \<Longrightarrow>
   status c s = (Inr PENDING, logged [GetTransactionReceipt (p_tx_hash s)] s)"
  by (simp add: status_def emit_logged)

lemma status_poll_arrival:
  "p_tx_receipt s = PNone \<Longrightarrow> get_transaction_receipt c (receipt_polls s) (p_tx_hash s) = Inr r \<Longrightarrow>
   r \<noteq> PNone \<Longrightarrow>
   status c s = (receipt_status r, (logged [GetTransactionReceipt (p_tx_hash s)] s)\<lparr>p_tx_receipt := r\<rparr>)"
  by (simp add: status_def emit_logged)

lemma wait_checks_arrival:
  "p_tx_receipt s = PNone \<Longrightarrow> k < n \<Longrightarrow>
   (\<forall>j<k. get_transaction_receipt c (receipt_polls s + j) (p_tx_hash s) = Inr PNone) \<Longrightarrow>
   get_transaction_receipt c (receipt_polls s + k) (p_tx_hash s) = Inr r \<Longrightarrow> r \<noteq> PNone \<Longrightarrow>
   receipt_status r = Inr st \<Longrightarrow>
   wait_checks n c s =
     (Inr True, (logged (replicate (Suc k) (GetTransactionReceipt (p_tx_hash s))) s)\<lparr>p_tx_receipt := r\<rparr>)"
proof (induction n arbitrary: s k)
  case 0
  then show ?case by simp
next
  case (Suc n)
  show ?case
  proof (cases k)
    case 0
    with Suc.prems have "status c s =
        (receipt_status r, (logged [GetTransactionReceipt (p_tx_hash s)] s)\<lparr>p_tx_receipt := r\<rparr>)"
      by (simp add: status_poll_arrival)
    moreover have "st \<noteq> PENDING" using Suc.prems(6) receipt_status_not_PENDING [of r] by auto
    ultimately show ?thesis using 0 Suc.prems(6) by simp
  next
    case (Suc k')
    let ?s1 = "logged [GetTransactionReceipt (p_tx_hash s)] s"
    from Suc.prems Suc have p0: "get_transaction_receipt c (receipt_polls s) (p_tx_hash s) = Inr PNone"
      by (metis add.right_neutral zero_less_Suc)
    with Suc.prems have st: "status c s = (Inr PENDING, ?s1)" by (simp add: status_poll_pending)
    have "wait_checks n c ?s1 =
      (Inr True, (logged (replicate (Suc k') (GetTransactionReceipt (p_tx_hash ?s1))) ?s1)\<lparr>p_tx_receipt := r\<rparr>)"
    proof (rule Suc.IH)
      show "p_tx_receipt ?s1 = PNone" using Suc.prems by (simp add: logged_fields)
      show "k' < n" using Suc.prems Suc by simp
      show "\<forall>j<k'. get_transaction_receipt c (receipt_polls ?s1 + j) (p_tx_hash ?s1) = Inr PNone"
      proof (intro allI impI)
        fix j assume "j < k'"
        then have "Suc j < k" using Suc by simp
        with Suc.prems(3) [rule_format, of "Suc j"]
        show "get_transaction_receipt c (receipt_polls ?s1 + j) (p_tx_hash ?s1) = Inr PNone"
          by (simp add: receipt_polls_logged logged_fields)
      qed
      show "get_transaction_receipt c (receipt_polls ?s1 + k') (p_tx_hash ?s1) = Inr r"
        using Suc.prems(4) Suc by (simp add: receipt_polls_logged logged_fields)
      show "r \<noteq> PNone" by fact
      show "receipt_status r = Inr st" by fact
    qed
    with st Suc show ?thesis
      by (simp add: logged_logged logged_fields)
  qed
qed

lemma wait_checks_pending:
  "p_tx_receipt s = PNone \<Longrightarrow>
   (\<forall>j<n. get_transaction_receipt c (receipt_polls s + j) (p_tx_hash s) = Inr PNone) \<Longrightarrow>
   wait_checks n c s = (Inr False, logged (replicate n (GetTransactionReceipt (p_tx_hash s))) s)"
proof (induction n arbitrary: s)
  case 0
  then show ?case by (simp add: logged_Nil)
next
  case (Suc n)
  let ?s1 = "logged [GetTransactionReceipt (p_tx_hash s)] s"
  from Suc.prems have p0: "get_transaction_receipt c (receipt_polls s) (p_tx_hash s) = Inr PNone"
    by (metis add.right_neutral zero_less_Suc)
  with Suc.prems have st: "status c s = (Inr PENDING, ?s1)" by (simp add: status_poll_pending)
  have "wait_checks n c ?s1 = (Inr False, logged (replicate n (GetTransactionReceipt (p_tx_hash ?s1))) ?s1)"
  proof (rule Suc.IH)
    show "p_tx_receipt ?s1 = PNone" using Suc.prems by (simp add: logged_fields)
    show "\<forall>j<n. get_transaction_receipt c (receipt_polls ?s1 + j) (p_tx_hash ?s1) = Inr PNone"
    proof (intro allI impI)
      fix j assume "j < n"
      then have "Suc j < Suc n" by simp
      with Suc.prems(2) [rule_format, of "Suc j"]
      show "get_transaction_receipt c (receipt_polls ?s1 + j) (p_tx_hash ?s1) = Inr PNone"
        by (simp add: receipt_polls_logged logged_fields)
    qed
  qed
  with st show ?case by (simp add: logged_logged logged_fields)
qed

lemma wait_sleep_arrival:
  "p_tx_receipt s = PNone \<Longrightarrow>
   (\<forall>j<m. get_transaction_receipt c (receipt_polls s + j) (p_tx_hash s) = Inr PNone) \<Longrightarrow>
   get_transaction_receipt c (receipt_polls s + m) (p_tx_hash s) = Inr r \<Longrightarrow> r \<noteq> PNone \<Longrightarrow>
   receipt_status r = Inr st \<Longrightarrow>
   wait_sleep c s =
     Some (Inr (), (logged (concat (replicate m [GetTransactionReceipt (p_tx_hash s), Sleep 250])
                      @ [GetTransactionReceipt (p_tx_hash s)]) s)\<lparr>p_tx_receipt := r\<rparr>)"
proof (induction m arbitrary: s)
  case 0
  then have "status c s =
      (receipt_status r, (logged [GetTransactionReceipt (p_tx_hash s)] s)\<lparr>p_tx_receipt := r\<rparr>)"
    by (simp add: status_poll_arrival)
  moreover have "st \<noteq> PENDING" using 0(5) receipt_status_not_PENDING [of r] by auto
  ultimately show ?case using 0(5)
    by (subst wait_sleep.simps) simp
next
  case (Suc m)
  let ?s1 = "logged [GetTransactionReceipt (p_tx_hash s), Sleep 250] s"
  from Suc.prems have p0: "get_transaction_receipt c (receipt_polls s) (p_tx_hash s) = Inr PNone"
    by (metis add.right_neutral zero_less_Suc)
  with Suc.prems have st: "status c s = (Inr PENDING, logged [GetTransactionReceipt (p_tx_hash s)] s)"
    by (simp add: status_poll_pending)
  have "wait_sleep c ?s1 =
     Some (Inr (), (logged (concat (replicate m [GetTransactionReceipt (p_tx_hash ?s1), Sleep 250])
                      @ [GetTransactionReceipt (p_tx_hash ?s1)]) ?s1)\<lparr>p_tx_receipt := r\<rparr>)"
  proof (rule Suc.IH)
    show "p_tx_receipt ?s1 = PNone" using Suc.prems by (simp add: logged_fields)
    show "\<forall>j<m. get_transaction_receipt c (receipt_polls ?s1 + j) (p_tx_hash ?s1) = Inr PNone"
    proof (intro allI impI)
      fix j assume "j < m"
      then have "Suc j < Suc m" by simp
      with Suc.prems(2) [rule_format, of "Suc j"]
      show "get_transaction_receipt c (receipt_polls ?s1 + j) (p_tx_hash ?s1) = Inr PNone"
        by (simp add: receipt_polls_logged logged_fields)
    qed
    show "get_transaction_receipt c (receipt_polls ?s1 + m) (p_tx_hash ?s1) = Inr r"
      using Suc.prems(3) by (simp add: receipt_polls_logged logged_fields)
    show "r \<noteq> PNone" by fact
    show "receipt_status r = Inr st" by fact
  qed
  with st show ?case
    by (subst wait_sleep.simps) (simp add: logged_logged logged_fields emit_logged)
qed

lemma wait_sleep_forever_aux:
  "wait_sleep c s = Some y \<Longrightarrow>
   p_tx_receipt s = PNone \<longrightarrow>
   (\<exists>j. get_transaction_receipt c (receipt_polls s + j) (p_tx_hash s) \<noteq> Inr PNone)"
proof (rule wait_sleep.raw_induct [where P = "\<lambda>c s y. p_tx_receipt s = PNone \<longrightarrow>
   (\<exists>j. get_transaction_receipt c (receipt_polls s + j) (p_tx_hash s) \<noteq> Inr PNone)"])
  fix rec :: "chain_interface \<Rightarrow> transaction \<Rightarrow> ((exn + unit) \<times> transaction) option"
  fix c0 s0 y0
  assume IH: "\<And>c s y. rec c s = Some y \<Longrightarrow> p_tx_receipt s = PNone \<longrightarrow>
   (\<exists>j. get_transaction_receipt c (receipt_polls s + j) (p_tx_hash s) \<noteq> Inr PNone)"
  assume eq: "(case status c0 s0 of
        (Inl e, s1) \<Rightarrow> Some (Inl e, s1)
      | (Inr st, s1) \<Rightarrow>
          if st = PENDING then rec c0 (emit (Sleep 250) s1) else Some (Inr (), s1)) = Some y0"
  show "p_tx_receipt s0 = PNone \<longrightarrow>
   (\<exists>j. get_transaction_receipt c0 (receipt_polls s0 + j) (p_tx_hash s0) \<noteq> Inr PNone)"
  proof
    assume n: "p_tx_receipt s0 = PNone"
    show "\<exists>j. get_transaction_receipt c0 (receipt_polls s0 + j) (p_tx_hash s0) \<noteq> Inr PNone"
    proof (cases "get_transaction_receipt c0 (receipt_polls s0) (p_tx_hash s0) = Inr PNone")
      case False
      then have "get_transaction_receipt c0 (receipt_polls s0 + 0) (p_tx_hash s0) \<noteq> Inr PNone" by simp
      then show ?thesis by blast
    next
      case True
      let ?s1 = "logged [GetTransactionReceipt (p_tx_hash s0), Sleep 250] s0"
      from n True have "status c0 s0 = (Inr PENDING, logged [GetTransactionReceipt (p_tx_hash s0)] s0)"
        by (simp add: status_poll_pending)
      with eq have "rec c0 ?s1 = Some y0" by (simp add: emit_logged logged_logged)
      from IH [OF this] n obtain j where
        "get_transaction_receipt c0 (receipt_polls ?s1 + j) (p_tx_hash ?s1) \<noteq> Inr PNone"
        by (auto simp: logged_fields)
      then have "get_transaction_receipt c0 (receipt_polls s0 + Suc j) (p_tx_hash s0) \<noteq> Inr PNone"
        by (simp add: receipt_polls_logged logged_fields)
      then show ?thesis by blast
    qed
  qed
qed

lemma wait_sleep_forever:
  "p_tx_receipt s = PNone \<Longrightarrow>
   (\<forall>j. get_transaction_receipt c (receipt_polls s + j) (p_tx_hash s) = Inr PNone) \<Longrightarrow>
   wait_sleep c s = None"
  using wait_sleep_forever_aux [of c s] by (cases "wait_sleep c s") auto

lemma wait_checks_at_once:
  "fst (status c s) = Inr st \<Longrightarrow> st \<noteq> PENDING \<Longrightarrow>
   wait_checks (Suc n) c s = (Inr True, snd (status c s))"
  by (cases "status c s") simp

lemma wait_at_once:
  "fst (status c s) = Inr st \<Longrightarrow> st \<noteq> PENDING \<Longrightarrow> wait c s = Some (Inr (), snd (status c s))"
proof -
  assume a: "fst (status c s) = Inr st" "st \<noteq> PENDING"
  have "wait_checks 40 c s = wait_checks (Suc 39) c s" by simp
  also have "\<dots> = (Inr True, snd (status c s))" using a by (rule wait_checks_at_once)
  finally show ?thesis by (simp add: wait_def)
qed

lemma wait_cached:
  "p_tx_receipt s \<noteq> PNone \<Longrightarrow> receipt_status (p_tx_receipt s) = Inr st \<Longrightarrow> wait c s = Some (Inr (), s)"
proof -
  assume a: "p_tx_receipt s \<noteq> PNone" "receipt_status (p_tx_receipt s) = Inr st"
  then have "status c s = (Inr st, s)" by (simp add: status_cached)
  moreover have "st \<noteq> PENDING" using a(2) receipt_status_not_PENDING [of "p_tx_receipt s"] by auto
  ultimately show ?thesis using wait_at_once [of c s st] by simp
qed

lemma wait_arrival:
  assumes n: "p_tx_receipt s = PNone"
    and p: "\<forall>j<k. get_transaction_receipt c (receipt_polls s + j) (p_tx_hash s) = Inr PNone"
    and a: "get_transaction_receipt c (receipt_polls s + k) (p_tx_hash s) = Inr r"
    and r: "r \<noteq> PNone" "receipt_status r = Inr st"
  shows "wait c s = Some (Inr (), (logged (wait_events (p_tx_hash s) k) s)\<lparr>p_tx_receipt := r\<rparr>)"
proof (cases "k < 40")
  case True
  from wait_checks_arrival [OF n True p a r] True show ?thesis
    by (simp add: wait_def wait_events_def)
next
  case False
  let ?h = "p_tx_hash s"
  let ?s1 = "logged (replicate 40 (GetTransactionReceipt ?h)) s"
  from p False have "\<forall>j<40. get_transaction_receipt c (receipt_polls s + j) ?h = Inr PNone" by simp
  from wait_checks_pending [OF n this] have wc: "wait_checks 40 c s = (Inr False, ?s1)" .
  have polls: "receipt_polls ?s1 = receipt_polls s + 40"
    by (simp add: receipt_polls_logged)
  have "wait_sleep c ?s1 =
     Some (Inr (), (logged (concat (replicate (k - 40) [GetTransactionReceipt (p_tx_hash ?s1), Sleep 250])
                      @ [GetTransactionReceipt (p_tx_hash ?s1)]) ?s1)\<lparr>p_tx_receipt := r\<rparr>)"
  proof (rule wait_sleep_arrival)
    show "p_tx_receipt ?s1 = PNone" using n by (simp add: logged_fields)
    show "\<forall>j<k - 40. get_transaction_receipt c (receipt_polls ?s1 + j) (p_tx_hash ?s1) = Inr PNone"
    proof (intro allI impI)
      fix j assume "j < k - 40"
      then have "40 + j < k" by simp
      with p [rule_format, of "40 + j"]
      show "get_transaction_receipt c (receipt_polls ?s1 + j) (p_tx_hash ?s1) = Inr PNone"
        by (simp add: polls logged_fields add.assoc)
    qed
    show "get_transaction_receipt c (receipt_polls ?s1 + (k - 40)) (p_tx_hash ?s1) = Inr r"
      using a False by (simp add: polls logged_fields)
    show "r \<noteq> PNone" "receipt_status r = Inr st" by fact+
  qed
  with wc False show ?thesis
    by (simp add: wait_def wait_events_def logged_logged logged_fields)
qed

lemma wait_forever:
  assumes n: "p_tx_receipt s = PNone"
    and p: "\<forall>j. get_transaction_receipt c (receipt_polls s + j) (p_tx_hash s) = Inr PNone"
  shows "wait c s = None"
proof -
  let ?h = "p_tx_hash s"
  let ?s1 = "logged (replicate 40 (GetTransactionReceipt ?h)) s"
  from p have "\<forall>j<40. get_transaction_receipt c (receipt_polls s + j) ?h = Inr PNone" by simp
  from wait_checks_pending [OF n this] have wc: "wait_checks 40 c s = (Inr False, ?s1)" .
  have "wait_sleep c ?s1 = None"
  proof (rule wait_sleep_forever)
    show "p_tx_receipt ?s1 = PNone" using n by (simp add: logged_fields)
    show "\<forall>j. get_transaction_receipt c (receipt_polls ?s1 + j) (p_tx_hash ?s1) = Inr PNone"
      using p by (simp add: receipt_polls_logged logged_fields add.assoc)
  qed
  with wc show ?thesis by (simp add: wait_def)
qed

text \<open>
  Claim C6. \<^verbatim>\<open>wait\<close> on a handle whose receipt is cached (status SUCCESS or FAILURE)
  returns at once and leaves the handle and the log of backend calls as they are. On a
  handle without a receipt, when the backend answers \<^verbatim>\<open>None\<close> to the next \<open>k\<close>
  polls and then returns a receipt, \<^verbatim>\<open>wait\<close> returns with that receipt cached and has
  caused exactly the events \<open>wait_events\<close>: at most 40 polls with no sleep between
  them, and after them polls separated by sleeps of 250 ms, however large \<open>k\<close> is.
  When the backend never returns a receipt, \<^verbatim>\<open>wait\<close> never returns.
\<close>

theorem wait_two_phases:
  "(\<forall>st. p_tx_receipt s \<noteq> PNone \<and> receipt_status (p_tx_receipt s) = Inr st \<longrightarrow>
      wait c s = Some (Inr (), s)) \<and>
   (\<forall>k r st.
      p_tx_receipt s = PNone \<and>
      (\<forall>j<k. get_transaction_receipt c (receipt_polls s + j) (p_tx_hash s) = Inr PNone) \<and>
      get_transaction_receipt c (receipt_polls s + k) (p_tx_hash s) = Inr r \<and>
      r \<noteq> PNone \<and> receipt_status r = Inr st \<longrightarrow>
      wait c s = Some (Inr (), (logged (wait_events (p_tx_hash s) k) s)\<lparr>p_tx_receipt := r\<rparr>)) \<and>
   (p_tx_receipt s = PNone \<and>
    (\<forall>j. get_transaction_receipt c (receipt_polls s + j) (p_tx_hash s) = Inr PNone) \<longrightarrow>
      wait c s = None)"
  using wait_cached [of s _ c] wait_arrival [of s _ c] wait_forever [of s c] by blast

lemma demo_status_flags:
  "receipt_status demo_success = Inr SUCCESS" "receipt_status demo_failure = Inr FAILURE"
  "demo_success \<noteq> PNone" "demo_failure \<noteq> PNone"
  by (simp_all add: receipt_status_def demo_success_def demo_failure_def demo_flag_0 demo_flag_1
      and_then_def demo_receipt_not_None)

lemma demo_fresh:
  "p_tx_receipt (demo_handle abi0 rcp) = PNone" "receipt_polls (demo_handle abi0 rcp) = 0"
  "p_tx_hash (demo_handle abi0 rcp) = ''0xabc''"
  by (simp_all add: demo_handle_def init_def receipt_polls_def fetches_def)

lemma demo_feed:
  "get_transaction_receipt (demo_chain k m r ty) n h = Inr (if n < m then PNone else r)"
  by (simp add: demo_chain_def)

theorem wait_two_phases_witness:
  "wait (demo_chain HardhatDevChain 0 demo_failure ''0x0'') (demo_mined PNone None demo_success) = Some (Inr (), demo_mined PNone None demo_success) \<and>
   wait (demo_chain HardhatDevChain 41 demo_failure ''0x0'') (demo_handle PNone None) =
     Some (Inr (), (logged (wait_events ''0xabc'' 41) (demo_handle PNone None))\<lparr>p_tx_receipt := demo_failure\<rparr>) \<and>
   wait (demo_chain HardhatDevChain 3 demo_failure ''0x0'') (demo_handle PNone None) =
     Some (Inr (), (logged (wait_events ''0xabc'' 3) (demo_handle PNone None))\<lparr>p_tx_receipt := demo_failure\<rparr>) \<and>
   wait (demo_chain HardhatDevChain 0 PNone ''0x0'') (demo_handle PNone None) = None"
proof -
  have a: "p_tx_receipt (demo_mined PNone None demo_success) \<noteq> PNone \<and> receipt_status (p_tx_receipt (demo_mined PNone None demo_success)) = Inr SUCCESS"
    by (simp add: demo_mined_def demo_handle_def init_def demo_status_flags)
  have b: "p_tx_receipt (demo_handle PNone None) = PNone \<and>
      (\<forall>j<41. get_transaction_receipt (demo_chain HardhatDevChain 41 demo_failure ''0x0'')
          (receipt_polls (demo_handle PNone None) + j) (p_tx_hash (demo_handle PNone None)) = Inr PNone) \<and>
      get_transaction_receipt (demo_chain HardhatDevChain 41 demo_failure ''0x0'')
          (receipt_polls (demo_handle PNone None) + 41) (p_tx_hash (demo_handle PNone None)) = Inr demo_failure \<and>
      demo_failure \<noteq> PNone \<and> receipt_status demo_failure = Inr FAILURE"
    by (simp add: demo_fresh demo_feed demo_status_flags)
  have b3: "p_tx_receipt (demo_handle PNone None) = PNone \<and>
      (\<forall>j<3. get_transaction_receipt (demo_chain HardhatDevChain 3 demo_failure ''0x0'')
          (receipt_polls (demo_handle PNone None) + j) (p_tx_hash (demo_handle PNone None)) = Inr PNone) \<and>
      get_transaction_receipt (demo_chain HardhatDevChain 3 demo_failure ''0x0'')
          (receipt_polls (demo_handle PNone None) + 3) (p_tx_hash (demo_handle PNone None)) = Inr demo_failure \<and>
      demo_failure \<noteq> PNone \<and> receipt_status demo_failure = Inr FAILURE"
    by (simp add: demo_fresh demo_feed demo_status_flags)
  have c: "p_tx_receipt (demo_handle PNone None) = PNone \<and>
      (\<forall>j. get_transaction_receipt (demo_chain HardhatDevChain 0 PNone ''0x0'')
          (receipt_polls (demo_handle PNone None) + j) (p_tx_hash (demo_handle PNone None)) = Inr PNone)"
    by (simp add: demo_fresh demo_feed)
  from wait_two_phases [of "demo_mined PNone None demo_success" "demo_chain HardhatDevChain 0 demo_failure ''0x0''"] a
  have 1: "wait (demo_chain HardhatDevChain 0 demo_failure ''0x0'') (demo_mined PNone None demo_success) = Some (Inr (), demo_mined PNone None demo_success)"
    by blast
  from wait_two_phases [of "demo_handle PNone None" "demo_chain HardhatDevChain 41 demo_failure ''0x0''"] b
  have 2: "wait (demo_chain HardhatDevChain 41 demo_failure ''0x0'') (demo_handle PNone None) =
     Some (Inr (), (logged (wait_events (p_tx_hash (demo_handle PNone None)) 41) (demo_handle PNone None))\<lparr>p_tx_receipt := demo_failure\<rparr>)"
    by blast
  from wait_two_phases [of "demo_handle PNone None" "demo_chain HardhatDevChain 3 demo_failure ''0x0''"] b3
  have 3: "wait (demo_chain HardhatDevChain 3 demo_failure ''0x0'') (demo_handle PNone None) =
     Some (Inr (), (logged (wait_events (p_tx_hash (demo_handle PNone None)) 3) (demo_handle PNone None))\<lparr>p_tx_receipt := demo_failure\<rparr>)"
    by blast
  from wait_two_phases [of "demo_handle PNone None" "demo_chain HardhatDevChain 0 PNone ''0x0''"] c
  have 4: "wait (demo_chain HardhatDevChain 0 PNone ''0x0'') (demo_handle PNone None) = None"
    by blast
  from 1 2 3 4 show ?thesis by (simp add: demo_fresh)
qed

section \<open>Caching over the lifetime of a handle\<close>





section \<open>Handles with a terminal status\<close>

lemma status_terminal:
  assumes "fst (status c s) = Inr st" "st \<noteq> PENDING"
  shows "p_tx_receipt (snd (status c s)) \<noteq> PNone"
    and "receipt_status (p_tx_receipt (snd (status c s))) = Inr st"
    and "status c (snd (status c s)) = (Inr st, snd (status c s))"
    and "same_handle s (snd (status c s))"
    and "p_error (snd (status c s)) = p_error s"
    and "p_events (snd (status c s)) = p_events s"
    and "p_trace_transaction (snd (status c s)) = p_trace_transaction s"
    and "p_debug_trace_transaction (snd (status c s)) = p_debug_trace_transaction s"
    and "fetches is_call (snd (status c s)) = fetches is_call s"
  using assms
  by (auto simp: status_def Let_def emit_def same_handle_def fetches_def
      split: if_splits sum.splits)

lemma fetch_tx_receipt_terminal:
  assumes "fst (status c s) = Inr st" "st \<noteq> PENDING"
  shows "fetch_tx_receipt f c s = f c (snd (status c s))"
proof (cases "p_tx_receipt s = PNone")
  case True
  with wait_at_once [OF assms] status_terminal(1) [OF assms] show ?thesis
    by (simp add: fetch_tx_receipt_def)
next
  case False
  then show ?thesis by (simp add: fetch_tx_receipt_def status_cached)
qed

lemma demo_status:
  "fst (status (demo_chain k 0 demo_success ty) (demo_handle abi0 rcp)) = Inr SUCCESS"
  "fst (status (demo_chain k 0 demo_failure ty) (demo_handle abi0 rcp)) = Inr FAILURE"
  by (simp_all add: status_def Let_def demo_chain_def demo_handle_def init_def receipt_polls_def
      fetches_def emit_def demo_status_flags)



section \<open>Properties of the decoded error\<close>

text \<open>
  Claim C10. On a handle whose status is SUCCESS the decoded-error accessor returns
  \<^verbatim>\<open>None\<close>, and it replays no call: the handle afterwards is the handle after the
  status read, with as many \<^verbatim>\<open>call\<close> events as before.
\<close>

theorem error_none_on_success:
  "fst (status c s) = Inr SUCCESS \<Longrightarrow>
   error c s = Some (Inr None, snd (status c s)) \<and>
   fetches is_call (snd (status c s)) = fetches is_call s"
proof -
  assume a: "fst (status c s) = Inr SUCCESS"
  have n: "SUCCESS \<noteq> PENDING" by simp
  have "error c s = Some (error_body c (snd (status c s)))"
    unfolding error_def by (rule fetch_tx_receipt_terminal [OF a n])
  also have "error_body c (snd (status c s)) = (Inr None, snd (status c s))"
    by (simp add: error_body_def status_terminal(3) [OF a n])
  finally show ?thesis using status_terminal(9) [OF a n] by simp
qed

theorem error_none_on_success_witness:
  "map_option fst (error (demo_chain GanacheDevChain 0 demo_success ''0x0'')
      (demo_handle (PDict []) (Some ''Counter''))) = Some (Inr None) \<and>
   map_option (\<lambda>r. fetches is_call (snd r)) (error (demo_chain GanacheDevChain 0 demo_success ''0x0'')
      (demo_handle (PDict []) (Some ''Counter''))) = Some 0"
proof -
  have h: "fst (status (demo_chain GanacheDevChain 0 demo_success ''0x0'')
      (demo_handle (PDict []) (Some ''Counter''))) = Inr SUCCESS"
    by (rule demo_status)
  have z: "fetches is_call (demo_handle (PDict []) (Some ''Counter'')) = 0"
    by (simp add: fetches_def demo_handle_def init_def)
  from error_none_on_success [OF h] z show ?thesis by simp
qed



lemma demo_status_state:
  "r \<noteq> PNone \<Longrightarrow>
   status (demo_chain k 0 r ty) (demo_handle abi0 rcp) = (receipt_status r, demo_mined abi0 rcp r)"
  by (simp add: status_def Let_def demo_chain_def demo_handle_def init_def receipt_polls_def
      fetches_def emit_def demo_mined_def)

lemma demo_no_address: "has_contract_address demo_success = Inr False"
  by (simp add: has_contract_address_def demo_success_def demo_receipt_def and_then_def)

lemma demo_handle_fields:
  "p_abi (demo_handle abi0 rcp) = abi0" "p_tx_hash (demo_handle abi0 rcp) = ''0xabc''"
  "p_return_type (demo_handle abi0 rcp) = ''Counter''" "p_recipient_fqn (demo_handle abi0 rcp) = rcp"
  "p_trace_transaction (demo_handle abi0 rcp) = PNone"
  "p_debug_trace_transaction (demo_handle abi0 rcp) = PNone"
  "p_events (demo_handle abi0 rcp) = None" "p_error (demo_handle abi0 rcp) = None"
  "p_tx_data (demo_handle abi0 rcp) = PNone"
  "p_tx_params (demo_handle abi0 rcp) = PDict [(''to'', PStr ''0x01''), (''data'', PStr ''0x'')]"
  by (simp_all add: demo_handle_def init_def)

lemma demo_mined_receipt: "p_tx_receipt (demo_mined abi0 rcp r) = r"
  by (simp add: demo_mined_def)

lemma fromhex_002a: "fromhex_str ''002a'' = Some [0, 42]"
  by (simp add: hex_digit_value_def is_space_def)

section \<open>The return value once the receipt is there\<close>

lemma only_receipt_refl: "only_receipt s s"
  by (simp add: only_receipt_def same_handle_def)

lemma only_receipt_trans: "only_receipt s s1 \<Longrightarrow> only_receipt s1 s2 \<Longrightarrow> only_receipt s s2"
  by (simp add: only_receipt_def same_handle_def)

lemma status_only_receipt: "status c s = (r, s') \<Longrightarrow> only_receipt s s'"
  by (auto simp: status_def Let_def emit_def only_receipt_def same_handle_def
      split: if_splits sum.splits)

lemma status_not_pending_cached:
  "status c s = (Inr st, s') \<Longrightarrow> st \<noteq> PENDING \<Longrightarrow> p_tx_receipt s' \<noteq> PNone"
  by (auto simp: status_def Let_def emit_def split: if_splits sum.splits)

lemma sleep_only_receipt: "only_receipt s (emit ev s)"
  by (simp add: only_receipt_def same_handle_def emit_def)

lemma wait_checks_ready:
  "wait_checks n c s = (r, s') \<Longrightarrow> only_receipt s s' \<and> (r = Inr True \<longrightarrow> p_tx_receipt s' \<noteq> PNone)"
proof (induction n arbitrary: s)
  case 0
  then show ?case by (auto simp: only_receipt_refl)
next
  case (Suc n)
  obtain r1 s1 where st: "status c s = (r1, s1)" by (cases "status c s")
  have k: "only_receipt s s1" using st by (rule status_only_receipt)
  show ?case
  proof (cases r1)
    case (Inl e)
    with Suc.prems st k show ?thesis by auto
  next
    case (Inr v)
    show ?thesis
    proof (cases "v = PENDING")
      case True
      with Suc.prems st Inr have "wait_checks n c s1 = (r, s')" by simp
      from Suc.IH [OF this] k show ?thesis by (blast intro: only_receipt_trans)
    next
      case False
      with Suc.prems st Inr k status_not_pending_cached [of c s v s1] show ?thesis by auto
    qed
  qed
qed

lemma wait_sleep_ready_aux:
  "wait_sleep c s = Some y \<Longrightarrow>
   only_receipt s (snd y) \<and> (fst y = Inr () \<longrightarrow> p_tx_receipt (snd y) \<noteq> PNone)"
proof (rule wait_sleep.raw_induct [where P = "\<lambda>c s y.
   only_receipt s (snd y) \<and> (fst y = Inr () \<longrightarrow> p_tx_receipt (snd y) \<noteq> PNone)"])
  fix rec :: "chain_interface \<Rightarrow> transaction \<Rightarrow> ((exn + unit) \<times> transaction) option"
  fix c0 s0 y0
  assume IH: "\<And>c s y. rec c s = Some y \<Longrightarrow>
    only_receipt s (snd y) \<and> (fst y = Inr () \<longrightarrow> p_tx_receipt (snd y) \<noteq> PNone)"
  assume eq: "(case status c0 s0 of
        (Inl e, s1) \<Rightarrow> Some (Inl e, s1)
      | (Inr st, s1) \<Rightarrow>
          if st = PENDING then rec c0 (emit (Sleep 250) s1) else Some (Inr (), s1)) = Some y0"
  obtain r1 s1 where st: "status c0 s0 = (r1, s1)" by (cases "status c0 s0")
  have k: "only_receipt s0 s1" using st by (rule status_only_receipt)
  show "only_receipt s0 (snd y0) \<and> (fst y0 = Inr () \<longrightarrow> p_tx_receipt (snd y0) \<noteq> PNone)"
  proof (cases r1)
    case (Inl e)
    with eq st k show ?thesis by auto
  next
    case (Inr v)
    show ?thesis
    proof (cases "v = PENDING")
      case True
      with eq st Inr have "rec c0 (emit (Sleep 250) s1) = Some y0" by simp
      from IH [OF this] k sleep_only_receipt [of s1 "Sleep 250"] show ?thesis
        by (blast intro: only_receipt_trans)
    next
      case False
      with eq st Inr k status_not_pending_cached [of c0 s0 v s1] show ?thesis by auto
    qed
  qed
qed

lemma wait_ready:
  assumes w: "wait c s = Some (Inr u, s')"
  shows "only_receipt s s'" and "p_tx_receipt s' \<noteq> PNone"
proof -
  obtain r1 s1 where wc: "wait_checks 40 c s = (r1, s1)" by (cases "wait_checks 40 c s")
  note k = wait_checks_ready [OF wc]
  have "only_receipt s s' \<and> p_tx_receipt s' \<noteq> PNone"
  proof (cases r1)
    case (Inl e)
    with w wc show ?thesis by (simp add: wait_def)
  next
    case (Inr d)
    show ?thesis
    proof (cases d)
      case True
      with w wc k Inr show ?thesis by (simp add: wait_def)
    next
      case False
      with w wc Inr have "wait_sleep c s1 = Some (Inr u, s')" by (simp add: wait_def)
      from wait_sleep_ready_aux [OF this] k show ?thesis
        by (auto intro: only_receipt_trans)
    qed
  qed
  then show "only_receipt s s'" and "p_tx_receipt s' \<noteq> PNone" by simp_all
qed

lemma receipt_ready_facts:
  assumes "receipt_ready c s = Some (Inr u, s1)"
  shows "only_receipt s s1" and "p_tx_receipt s1 \<noteq> PNone"
    and "fetch_tx_receipt f c s = f c s1"
proof -
  show a: "only_receipt s s1" using assms wait_ready(1) [of c s u s1]
    by (auto simp: receipt_ready_def only_receipt_refl split: if_splits)
  show b: "p_tx_receipt s1 \<noteq> PNone" using assms wait_ready(2) [of c s u s1]
    by (auto simp: receipt_ready_def split: if_splits)
  show "fetch_tx_receipt f c s = f c s1" using assms b
    by (auto simp: receipt_ready_def fetch_tx_receipt_def split: if_splits)
qed

lemma receipt_ready_at_once:
  "fst (status c s) = Inr st \<Longrightarrow> st \<noteq> PENDING \<Longrightarrow>
   receipt_ready c s = Some (Inr (), snd (status c s))"
  by (cases "p_tx_receipt s = PNone") (simp_all add: receipt_ready_def wait_at_once status_cached)

lemma return_value_on_success:
  assumes a: "receipt_ready c s = Some (Inr (), s1)"
    and st: "receipt_status (p_tx_receipt s1) = Inr SUCCESS"
  shows "return_value c s =
     (case has_contract_address (p_tx_receipt s1) of
        Inl x \<Rightarrow> Some (Inl x, s1)
      | Inr created \<Rightarrow>
          if created then
            Some (and_then (py_getitem (p_tx_receipt s1) ''contractAddress'')
                    (new_instance c (p_return_type s)), s1)
          else if p_abi s = PNone then Some (Inl AssertionError, s1)
          else Some (decode_return c s1))"
proof -
  note f = receipt_ready_facts [OF a]
  have s1: "status c s1 = (Inr SUCCESS, s1)" using f(2) st by (simp add: status_cached)
  have sh: "p_abi s1 = p_abi s" "p_return_type s1 = p_return_type s"
    using f(1) by (simp_all add: only_receipt_def same_handle_def)
  show ?thesis
    unfolding return_value_def f(3)
    by (simp add: return_value_body_def s1 f(2) sh split: sum.splits)
qed

lemma demo_wait_arrival:
  "r \<noteq> PNone \<Longrightarrow> receipt_status r = Inr st \<Longrightarrow>
   receipt_ready (demo_chain k m r ty) (demo_handle abi0 rcp) =
     Some (Inr (), (logged (wait_events ''0xabc'' m) (demo_handle abi0 rcp))\<lparr>p_tx_receipt := r\<rparr>)"
  using wait_arrival [of "demo_handle abi0 rcp" m "demo_chain k m r ty" r st]
  by (simp add: receipt_ready_def demo_fresh demo_feed)




lemma trace_output_outermost:
  "py_getitem frame ''result'' = Inr res \<Longrightarrow> py_getitem res ''output'' = Inr (PStr hex) \<Longrightarrow>
   fromhex_str (drop 2 hex) = Some out \<Longrightarrow> trace_output (PList (frame # frames)) = Inr out"
  by (simp add: trace_output_def and_then_def)

lemma debug_trace_output_value:
  "py_getitem dt ''returnValue'' = Inr (PStr hex) \<Longrightarrow> fromhex_str hex = Some out \<Longrightarrow>
   debug_trace_output dt = Inr out"
  by (simp add: debug_trace_output_def and_then_def)

text \<open>
  Claim C7. When the receipt of a handle is there, its status is SUCCESS, it has no
  contract address and the ABI is present: on the development chain of class Anvil
  (full trace) the call trace is fetched with one \<^verbatim>\<open>trace_transaction\<close> request and
  the return value is the codec's decoding of the output bytes of its first (outermost)
  frame; on every other development chain the debug trace is fetched with one request
  carrying the options \<^verbatim>\<open>{"enableMemory": True}\<close> and the return value is the
  decoding of its \<^verbatim>\<open>returnValue\<close> field. Both decode against the ABI and the return
  type, and a second read gives the same value without a further request.
\<close>

theorem return_value_from_trace:
  assumes a: "receipt_ready c s = Some (Inr (), s1)"
    and st: "receipt_status (p_tx_receipt s1) = Inr SUCCESS"
    and h: "has_contract_address (p_tx_receipt s1) = Inr False"
    and abi: "p_abi s \<noteq> PNone"
  shows
   "(\<forall>frame frames res hex out.
       dev_chain c = AnvilDevChain \<and> p_trace_transaction s = PNone \<and>
       trace_transaction c (p_tx_hash s) = Inr (PList (frame # frames)) \<and>
       py_getitem frame ''result'' = Inr res \<and> py_getitem res ''output'' = Inr (PStr hex) \<and>
       fromhex_str (drop 2 hex) = Some out \<longrightarrow>
       return_value c s =
         Some (process_return_data c out (p_abi s) (p_return_type s),
               (logged [TraceTransaction (p_tx_hash s)] s1)
                 \<lparr>p_trace_transaction := PList (frame # frames)\<rparr>) \<and>
       return_value c ((logged [TraceTransaction (p_tx_hash s)] s1)
                 \<lparr>p_trace_transaction := PList (frame # frames)\<rparr>) =
         Some (process_return_data c out (p_abi s) (p_return_type s),
               (logged [TraceTransaction (p_tx_hash s)] s1)
                 \<lparr>p_trace_transaction := PList (frame # frames)\<rparr>)) \<and>
    (\<forall>dt hex out.
       dev_chain c \<noteq> AnvilDevChain \<and> p_debug_trace_transaction s = PNone \<and>
       debug_trace_transaction c (p_tx_hash s) (PDict [(''enableMemory'', PBool True)]) = Inr dt \<and> dt \<noteq> PNone \<and>
       py_getitem dt ''returnValue'' = Inr (PStr hex) \<and> fromhex_str hex = Some out \<longrightarrow>
       return_value c s =
         Some (process_return_data c out (p_abi s) (p_return_type s),
               (logged [DebugTraceTransaction (p_tx_hash s) (PDict [(''enableMemory'', PBool True)])] s1)
                 \<lparr>p_debug_trace_transaction := dt\<rparr>) \<and>
       return_value c ((logged [DebugTraceTransaction (p_tx_hash s) (PDict [(''enableMemory'', PBool True)])] s1)
                 \<lparr>p_debug_trace_transaction := dt\<rparr>) =
         Some (process_return_data c out (p_abi s) (p_return_type s),
               (logged [DebugTraceTransaction (p_tx_hash s) (PDict [(''enableMemory'', PBool True)])] s1)
                 \<lparr>p_debug_trace_transaction := dt\<rparr>))"
proof -
  note f = receipt_ready_facts [OF a]
  have sh: "p_abi s1 = p_abi s" "p_return_type s1 = p_return_type s" "p_tx_hash s1 = p_tx_hash s"
    "p_trace_transaction s1 = p_trace_transaction s"
    "p_debug_trace_transaction s1 = p_debug_trace_transaction s"
    using f(1) by (simp_all add: only_receipt_def same_handle_def)
  have rv: "return_value c s = Some (decode_return c s1)"
    unfolding return_value_on_success [OF a st] using h abi by simp
  have again: "return_value c s2 = Some (decode_return c s2)"
    if "p_tx_receipt s2 = p_tx_receipt s1" "p_abi s2 = p_abi s" for s2
  proof -
    from that f(2) have "receipt_ready c s2 = Some (Inr (), s2)" by (simp add: receipt_ready_def)
    from return_value_on_success [OF this] that st h abi show ?thesis by simp
  qed
  have anvil: "return_value c s = Some (process_return_data c out (p_abi s) (p_return_type s),
               (logged [TraceTransaction (p_tx_hash s)] s1)\<lparr>p_trace_transaction := PList (frame # frames)\<rparr>) \<and>
       return_value c ((logged [TraceTransaction (p_tx_hash s)] s1)\<lparr>p_trace_transaction := PList (frame # frames)\<rparr>) =
         Some (process_return_data c out (p_abi s) (p_return_type s),
               (logged [TraceTransaction (p_tx_hash s)] s1)\<lparr>p_trace_transaction := PList (frame # frames)\<rparr>)"
    if t: "dev_chain c = AnvilDevChain" "p_trace_transaction s = PNone"
       "trace_transaction c (p_tx_hash s) = Inr (PList (frame # frames))"
       "py_getitem frame ''result'' = Inr res" "py_getitem res ''output'' = Inr (PStr hex)"
       "fromhex_str (drop 2 hex) = Some out" for frame frames res hex out
  proof -
    let ?s2 = "(logged [TraceTransaction (p_tx_hash s)] s1)\<lparr>p_trace_transaction := PList (frame # frames)\<rparr>"
    have to: "trace_output (PList (frame # frames)) = Inr out"
      by (rule trace_output_outermost [OF t(4,5,6)])
    have tn: "p_trace_transaction s1 = PNone" using sh t(2) by simp
    have 1: "decode_return c s1 = (process_return_data c out (p_abi s) (p_return_type s), ?s2)"
      using t(1,3) tn to sh
      by (simp add: decode_return_def fetch_trace_transaction_def Let_def emit_logged and_then_def
          logged_def)
    have 2: "decode_return c ?s2 = (process_return_data c out (p_abi s) (p_return_type s), ?s2)"
      using t(1) to sh
      by (simp add: decode_return_def fetch_trace_transaction_def and_then_def logged_def)
    have "return_value c ?s2 = Some (decode_return c ?s2)"
      by (rule again) (simp_all add: logged_def sh)
    with rv 1 2 show ?thesis by simp
  qed
  have other: "return_value c s = Some (process_return_data c out (p_abi s) (p_return_type s),
               (logged [DebugTraceTransaction (p_tx_hash s) (PDict [(''enableMemory'', PBool True)])] s1)\<lparr>p_debug_trace_transaction := dt\<rparr>) \<and>
       return_value c ((logged [DebugTraceTransaction (p_tx_hash s) (PDict [(''enableMemory'', PBool True)])] s1)\<lparr>p_debug_trace_transaction := dt\<rparr>) =
         Some (process_return_data c out (p_abi s) (p_return_type s),
               (logged [DebugTraceTransaction (p_tx_hash s) (PDict [(''enableMemory'', PBool True)])] s1)\<lparr>p_debug_trace_transaction := dt\<rparr>)"
    if t: "dev_chain c \<noteq> AnvilDevChain" "p_debug_trace_transaction s = PNone"
       "debug_trace_transaction c (p_tx_hash s) (PDict [(''enableMemory'', PBool True)]) = Inr dt" "dt \<noteq> PNone"
       "py_getitem dt ''returnValue'' = Inr (PStr hex)" "fromhex_str hex = Some out" for dt hex out
  proof -
    let ?s2 = "(logged [DebugTraceTransaction (p_tx_hash s) (PDict [(''enableMemory'', PBool True)])] s1)\<lparr>p_debug_trace_transaction := dt\<rparr>"
    have to: "debug_trace_output dt = Inr out"
      by (rule debug_trace_output_value [OF t(5,6)])
    have tn: "p_debug_trace_transaction s1 = PNone" using sh t(2) by simp
    have 1: "decode_return c s1 = (process_return_data c out (p_abi s) (p_return_type s), ?s2)"
      using t(1,3,4) tn to sh
      by (simp add: decode_return_def fetch_debug_trace_transaction_def Let_def emit_logged
          and_then_def logged_def)
    have 2: "decode_return c ?s2 = (process_return_data c out (p_abi s) (p_return_type s), ?s2)"
      using t(1,4) to sh
      by (simp add: decode_return_def fetch_debug_trace_transaction_def and_then_def logged_def)
    have "return_value c ?s2 = Some (decode_return c ?s2)"
      by (rule again) (simp_all add: logged_def sh)
    with rv 1 2 show ?thesis by simp
  qed
  from anvil other show ?thesis by blast
qed

theorem return_value_from_trace_witness:
  "map_option fst (return_value (demo_chain AnvilDevChain 0 demo_success ''0x0'')
      (demo_handle (PDict []) (Some ''Counter'')))
     = Some (Inr (Instance ''Counter'' (PList [PInt 0, PInt 42]))) \<and>
   map_option fst (return_value (demo_chain HardhatDevChain 45 demo_success ''0x0'')
      (demo_handle (PDict []) (Some ''Counter'')))
     = Some (Inr (Instance ''Counter'' (PList [PInt 0, PInt 42])))"
proof -
  let ?s = "demo_handle (PDict []) (Some ''Counter'')"
  let ?a = "demo_chain AnvilDevChain 0 demo_success ''0x0''"
  let ?h = "demo_chain HardhatDevChain 45 demo_success ''0x0''"
  let ?sa = "(logged (wait_events ''0xabc'' 0) ?s)\<lparr>p_tx_receipt := demo_success\<rparr>"
  let ?sh = "(logged (wait_events ''0xabc'' 45) ?s)\<lparr>p_tx_receipt := demo_success\<rparr>"
  let ?frame = "PDict [(''result'', PDict [(''output'', PStr ''0x002a'')])]"
  have abi: "p_abi ?s \<noteq> PNone" by (simp add: demo_handle_fields)
  have ra: "receipt_ready ?a ?s = Some (Inr (), ?sa)" and rh: "receipt_ready ?h ?s = Some (Inr (), ?sh)"
    by (rule demo_wait_arrival [OF demo_status_flags(3) demo_status_flags(1)])+
  have sa: "receipt_status (p_tx_receipt ?sa) = Inr SUCCESS"
    and sh: "receipt_status (p_tx_receipt ?sh) = Inr SUCCESS"
    by (simp_all add: demo_status_flags)
  have ha: "has_contract_address (p_tx_receipt ?sa) = Inr False"
    and hh: "has_contract_address (p_tx_receipt ?sh) = Inr False"
    by (simp_all add: demo_no_address)
  have ta: "dev_chain ?a = AnvilDevChain \<and> p_trace_transaction ?s = PNone \<and>
       trace_transaction ?a (p_tx_hash ?s) = Inr (PList (?frame # [])) \<and>
       py_getitem ?frame ''result'' = Inr (PDict [(''output'', PStr ''0x002a'')]) \<and>
       py_getitem (PDict [(''output'', PStr ''0x002a'')]) ''output'' = Inr (PStr ''0x002a'') \<and>
       fromhex_str (drop 2 ''0x002a'') = Some [0, 42]"
    by (simp add: demo_chain_def demo_handle_fields hex_digit_value_def is_space_def)
  have th: "dev_chain ?h \<noteq> AnvilDevChain \<and> p_debug_trace_transaction ?s = PNone \<and>
       debug_trace_transaction ?h (p_tx_hash ?s) (PDict [(''enableMemory'', PBool True)]) = Inr (PDict [(''returnValue'', PStr ''002a'')]) \<and>
       PDict [(''returnValue'', PStr ''002a'')] \<noteq> PNone \<and>
       py_getitem (PDict [(''returnValue'', PStr ''002a'')]) ''returnValue'' = Inr (PStr ''002a'') \<and>
       fromhex_str ''002a'' = Some [0, 42]"
    by (simp add: demo_chain_def demo_handle_fields hex_digit_value_def is_space_def)
  from return_value_from_trace [OF ra sa ha abi] ta
  have 1: "map_option fst (return_value ?a ?s) =
      Some (process_return_data ?a [0, 42] (p_abi ?s) (p_return_type ?s))"
    by (metis (no_types, lifting) fst_conv option.simps(9))
  from return_value_from_trace [OF rh sh hh abi] th
  have 2: "map_option fst (return_value ?h ?s) =
      Some (process_return_data ?h [0, 42] (p_abi ?s) (p_return_type ?s))"
    by (metis (no_types, lifting) fst_conv option.simps(9))
  from 1 2 show ?thesis by (simp add: demo_chain_def demo_handle_fields)
qed
section \<open>Events of a contract creation\<close>

text \<open>
  Claim C8. On a handle without a recipient (a contract creation) whose events are not
  yet decoded, once the receipt is there: the events accessor returns the empty list
  (and caches it) when the receipt's log list is empty, and raises
  \<^verbatim>\<open>AssertionError\<close> when the log list is not empty.
\<close>

theorem events_without_recipient:
  "p_recipient_fqn s = None \<Longrightarrow> p_events s = None \<Longrightarrow>
   receipt_ready c s = Some (Inr (), s1) \<Longrightarrow>
   py_getitem (p_tx_receipt s1) ''logs'' = Inr logs \<Longrightarrow> py_len logs = Inr n \<Longrightarrow>
   events c s =
     Some (if n = 0 then (Inr [], s1\<lparr>p_events := Some []\<rparr>) else (Inl AssertionError, s1))"
proof -
  assume r: "p_recipient_fqn s = None" and e: "p_events s = None"
    and a: "receipt_ready c s = Some (Inr (), s1)"
    and l: "py_getitem (p_tx_receipt s1) ''logs'' = Inr logs" "py_len logs = Inr n"
  note f = receipt_ready_facts [OF a]
  from f(1) r e have "p_recipient_fqn s1 = None" "p_events s1 = None"
    by (simp_all add: only_receipt_def same_handle_def)
  then show ?thesis
    unfolding events_def f(3) using l f(2) by (simp add: events_body_def and_then_def)
qed

theorem events_without_recipient_witness:
  "map_option fst (events (demo_chain AnvilDevChain 0 demo_success ''0x0'') (demo_handle PNone None))
     = Some (Inr []) \<and>
   map_option fst (events (demo_chain AnvilDevChain 0
       (demo_receipt ''0x1'' (PStr ''0xc0de'') (PList [PDict []])) ''0x0'') (demo_handle PNone None))
     = Some (Inl AssertionError)"
proof -
  let ?s = "demo_handle PNone None"
  let ?r = "demo_receipt ''0x1'' (PStr ''0xc0de'') (PList [PDict []])"
  let ?a = "demo_chain AnvilDevChain 0 demo_success ''0x0''"
  let ?b = "demo_chain AnvilDevChain 0 ?r ''0x0''"
  have r: "p_recipient_fqn ?s = None" and e: "p_events ?s = None"
    by (simp_all add: demo_handle_fields)
  have sa: "status ?a ?s = (Inr SUCCESS, demo_mined PNone None demo_success)"
    by (simp add: demo_status_state demo_status_flags)
  have sb: "status ?b ?s = (Inr SUCCESS, demo_mined PNone None ?r)"
    by (simp add: demo_status_state demo_receipt_not_None receipt_status_def demo_flag_1 and_then_def)
  have ra: "receipt_ready ?a ?s = Some (Inr (), demo_mined PNone None demo_success)"
    using receipt_ready_at_once [of ?a ?s SUCCESS] by (simp add: sa)
  have rb: "receipt_ready ?b ?s = Some (Inr (), demo_mined PNone None ?r)"
    using receipt_ready_at_once [of ?b ?s SUCCESS] by (simp add: sb)
  have la: "py_getitem (p_tx_receipt (demo_mined PNone None demo_success)) ''logs'' = Inr (PList [])"
    by (simp add: demo_mined_receipt demo_success_def demo_receipt_def)
  have lb: "py_getitem (p_tx_receipt (demo_mined PNone None ?r)) ''logs'' = Inr (PList [PDict []])"
    by (simp add: demo_mined_receipt demo_receipt_def)
  have na: "py_len (PList []) = Inr 0" and nb: "py_len (PList [PDict []]) = Inr 1"
    by simp_all
  from events_without_recipient [OF r e ra la na] events_without_recipient [OF r e rb lb nb]
  show ?thesis by simp
qed
section \<open>The legacy transaction\<close>

lemma demo_ints:
  "py_int16 (PStr ''0x3b9aca00'') = Inr 1000000000" "py_int16 (PStr ''0x1b'') = Inr 27"
  "py_int16 (PStr ''0x0'') = Inr 0" "py_int16 (PStr ''0x2'') = Inr 2"
  by (simp_all add: int16_str_def strip_sign_def strip_0x_def is_space_def hex_digit_value_def)

text \<open>
  Claim C9. On a legacy handle whose raw transaction data is available, \<^verbatim>\<open>gas_price\<close>
  and \<^verbatim>\<open>v\<close> return the \<^verbatim>\<open>gasPrice\<close> and \<^verbatim>\<open>v\<close> fields read as hexadecimal
  numbers, and \<^verbatim>\<open>type\<close> returns LEGACY when the \<^verbatim>\<open>type\<close> field reads as 0 and
  raises \<^verbatim>\<open>AssertionError\<close> when it reads as any other number.
\<close>

theorem legacy_accessors:
  "observed_tx_data c s = Inr d \<Longrightarrow>
   fst (gas_price c s) = and_then (py_getitem d ''gasPrice'') py_int16 \<and>
   fst (sig_v c s) = and_then (py_getitem d ''v'') py_int16 \<and>
   (\<forall>n. and_then (py_getitem d ''type'') py_int16 = Inr n \<longrightarrow>
      fst (type c s) = (if n = 0 then Inr LEGACY else Inl AssertionError))"
  by (auto simp: gas_price_def sig_v_def type_def fetch_tx_data_def observed_tx_data_def Let_def
      tx_data_int_def type_body_def and_then_def split: if_splits)

theorem legacy_accessors_witness:
  "fst (gas_price (demo_chain AnvilDevChain 0 demo_success ''0x0'') (demo_handle PNone None))
     = Inr 1000000000 \<and>
   fst (sig_v (demo_chain AnvilDevChain 0 demo_success ''0x0'') (demo_handle PNone None)) = Inr 27 \<and>
   fst (type (demo_chain AnvilDevChain 0 demo_success ''0x0'') (demo_handle PNone None)) = Inr LEGACY \<and>
   fst (type (demo_chain AnvilDevChain 0 demo_success ''0x2'') (demo_handle PNone None))
     = Inl AssertionError"
proof -
  let ?s = "demo_handle PNone None"
  have o: "observed_tx_data (demo_chain AnvilDevChain 0 demo_success ty) ?s = Inr (demo_tx_data ty)" for ty
    by (simp add: observed_tx_data_def demo_chain_def demo_handle_fields)
  have f: "and_then (py_getitem (demo_tx_data ty) ''gasPrice'') py_int16 = Inr 1000000000"
    "and_then (py_getitem (demo_tx_data ty) ''v'') py_int16 = Inr 27"
    "and_then (py_getitem (demo_tx_data ty) ''type'') py_int16 = py_int16 (PStr ty)" for ty
    by (simp_all add: demo_tx_data_def and_then_def demo_ints del: py_int16.simps)
  from legacy_accessors [OF o [of "''0x0''"]] legacy_accessors [OF o [of "''0x2''"]]
  show ?thesis by (simp add: f demo_ints del: py_int16.simps)
qed

section \<open>The depth of the revert payload\<close>

lemma extract_depths:
  "(k = AnvilDevChain \<or> k = GanacheDevChain \<longrightarrow>
      (\<forall>p. py_getitem e ''data'' = Inr (PStr p) \<longrightarrow>
         extract_revert_data k e = Inr (PStr (strip_0x_prefix p)))) \<and>
   (k = HardhatDevChain \<longrightarrow>
      (\<forall>d p. py_getitem e ''data'' = Inr d \<and> py_getitem d ''data'' = Inr (PStr p) \<longrightarrow>
         extract_revert_data k e = Inr (PStr (strip_0x_prefix p)))) \<and>
   (k = OtherDevChain \<longrightarrow> extract_revert_data k e = Inl NotImplementedError)"
  by (auto simp: extract_revert_data_def and_then_def strip_0x_prefix_def)

lemma error_body_replay:
  assumes st: "status c s = (Inr FAILURE, s)" and pe: "p_error s = None"
    and cl: "call c (p_tx_params s) = Inl (JsonRpcError e)"
  shows "extract_revert_data (dev_chain c) e = Inl x \<Longrightarrow>
           fst (error_body c s) = Inl (JsonRpcError e)"
    and "extract_revert_data (dev_chain c) e = Inr (PStr p) \<Longrightarrow> p_recipient_fqn s = Some fqn \<Longrightarrow>
         fromhex_str p = Some bs \<Longrightarrow>
           fst (error_body c s) = revert_outcome (process_revert_data c (p_tx_hash s) bs fqn)"
  using st pe cl
  by (auto simp: error_body_def replay_call_def Let_def emit_def decode_revert_def and_then_def
      revert_outcome_def split: sum.splits exn.splits)

lemma demo_call:
  "call (demo_chain k m r ty) params =
     Inl (JsonRpcError (PDict [(''code'', PInt 3), (''data'',
            if k = HardhatDevChain then PDict [(''data'', revert_payload)] else revert_payload)]))"
  "dev_chain (demo_chain k m r ty) = k"
  by (simp_all add: demo_chain_def)

lemma demo_revert_bytes: "fromhex_str (strip_0x_prefix ''0x08c379a0'') = Some [8, 195, 121, 160]"
  by (simp add: strip_0x_prefix_def hex_digit_value_def is_space_def)

lemma demo_revert_outcome:
  "revert_outcome (process_revert_data (demo_chain k m r ty) h [8, 195, 121, 160] fqn) =
     Inr (Some demo_error)"
  by (simp add: revert_outcome_def demo_chain_def demo_error_def)

text \<open>
  Claim C4, as amended. On a handle whose status is FAILURE, with a recipient and no
  cached error, whose replayed call fails with a \<^verbatim>\<open>JsonRpcError\<close> carrying \<open>e\<close>:
  the development chains of class Anvil and of class Ganache read the payload at
  \<^verbatim>\<open>e["data"]\<close>, the class Hardhat reads it one level deeper at
  \<^verbatim>\<open>e["data"]["data"]\<close>, and in both cases the bytes given to the codec are those of
  the payload without a leading \<^verbatim>\<open>0x\<close>; a development chain of none of the three
  classes yields no revert reason, the \<^verbatim>\<open>JsonRpcError\<close> is raised again.
\<close>

theorem revert_payload_depth:
  assumes a: "fst (status c s) = Inr FAILURE" and pe: "p_error s = None"
    and fq: "p_recipient_fqn s = Some fqn"
    and cl: "call c (p_tx_params s) = Inl (JsonRpcError e)"
  shows
   "(dev_chain c = AnvilDevChain \<or> dev_chain c = GanacheDevChain \<longrightarrow>
      (\<forall>p bs. py_getitem e ''data'' = Inr (PStr p) \<and> fromhex_str (strip_0x_prefix p) = Some bs \<longrightarrow>
         map_option fst (error c s) =
           Some (revert_outcome (process_revert_data c (p_tx_hash s) bs fqn)))) \<and>
    (dev_chain c = HardhatDevChain \<longrightarrow>
      (\<forall>d p bs. py_getitem e ''data'' = Inr d \<and> py_getitem d ''data'' = Inr (PStr p) \<and>
         fromhex_str (strip_0x_prefix p) = Some bs \<longrightarrow>
         map_option fst (error c s) =
           Some (revert_outcome (process_revert_data c (p_tx_hash s) bs fqn)))) \<and>
    (dev_chain c = OtherDevChain \<longrightarrow> map_option fst (error c s) = Some (Inl (JsonRpcError e)))"
proof -
  have n: "FAILURE \<noteq> PENDING" by simp
  let ?s1 = "snd (status c s)"
  have e1: "error c s = Some (error_body c ?s1)"
    unfolding error_def by (rule fetch_tx_receipt_terminal [OF a n])
  have st1: "status c ?s1 = (Inr FAILURE, ?s1)" by (rule status_terminal(3) [OF a n])
  have pe1: "p_error ?s1 = None" using status_terminal(5) [OF a n] pe by simp
  have sh: "p_tx_params ?s1 = p_tx_params s" "p_recipient_fqn ?s1 = Some fqn"
    "p_tx_hash ?s1 = p_tx_hash s"
    using status_terminal(4) [OF a n] fq by (simp_all add: same_handle_def)
  have cl1: "call c (p_tx_params ?s1) = Inl (JsonRpcError e)" using cl sh by simp
  note eb = error_body_replay [OF st1 pe1 cl1]
  note ex = extract_depths [of "dev_chain c" e]
  have 1: "map_option fst (error c s) = Some (revert_outcome (process_revert_data c (p_tx_hash s) bs fqn))"
    if "dev_chain c = AnvilDevChain \<or> dev_chain c = GanacheDevChain"
      "py_getitem e ''data'' = Inr (PStr p)" "fromhex_str (strip_0x_prefix p) = Some bs" for p bs
  proof -
    from ex that have "extract_revert_data (dev_chain c) e = Inr (PStr (strip_0x_prefix p))" by blast
    from eb(2) [OF this sh(2) that(3)] show ?thesis by (simp add: e1 sh)
  qed
  have 2: "map_option fst (error c s) = Some (revert_outcome (process_revert_data c (p_tx_hash s) bs fqn))"
    if "dev_chain c = HardhatDevChain"
      "py_getitem e ''data'' = Inr d" "py_getitem d ''data'' = Inr (PStr p)"
      "fromhex_str (strip_0x_prefix p) = Some bs" for d p bs
  proof -
    from ex that have "extract_revert_data (dev_chain c) e = Inr (PStr (strip_0x_prefix p))" by blast
    from eb(2) [OF this sh(2) that(4)] show ?thesis by (simp add: e1 sh)
  qed
  have 3: "map_option fst (error c s) = Some (Inl (JsonRpcError e))" if "dev_chain c = OtherDevChain"
  proof -
    from ex that have "extract_revert_data (dev_chain c) e = Inl NotImplementedError" by blast
    from eb(1) [OF this] show ?thesis by (simp add: e1)
  qed
  from 1 2 3 show ?thesis by blast
qed

theorem revert_payload_depth_witness:
  "map_option fst (error (demo_chain AnvilDevChain 0 demo_failure ''0x0'')
      (demo_handle (PDict []) (Some ''Counter''))) = Some (Inr (Some demo_error)) \<and>
   map_option fst (error (demo_chain HardhatDevChain 0 demo_failure ''0x0'')
      (demo_handle (PDict []) (Some ''Counter''))) = Some (Inr (Some demo_error)) \<and>
   map_option fst (error (demo_chain OtherDevChain 0 demo_failure ''0x0'')
      (demo_handle (PDict []) (Some ''Counter''))) =
     Some (Inl (JsonRpcError (PDict [(''code'', PInt 3), (''data'', revert_payload)])))"
proof -
  let ?s = "demo_handle (PDict []) (Some ''Counter'')"
  have pe: "p_error ?s = None" and fq: "p_recipient_fqn ?s = Some ''Counter''"
    by (simp_all add: demo_handle_fields)
  have st: "fst (status (demo_chain k 0 demo_failure ''0x0'') ?s) = Inr FAILURE" for k
    by (rule demo_status)
  have ca: "call (demo_chain AnvilDevChain 0 demo_failure ''0x0'') (p_tx_params ?s) =
      Inl (JsonRpcError (PDict [(''code'', PInt 3), (''data'', revert_payload)]))"
    and ch: "call (demo_chain HardhatDevChain 0 demo_failure ''0x0'') (p_tx_params ?s) =
      Inl (JsonRpcError (PDict [(''code'', PInt 3), (''data'', PDict [(''data'', revert_payload)])]))"
    and co: "call (demo_chain OtherDevChain 0 demo_failure ''0x0'') (p_tx_params ?s) =
      Inl (JsonRpcError (PDict [(''code'', PInt 3), (''data'', revert_payload)]))"
    by (simp_all add: demo_call)
  have ga: "py_getitem (PDict [(''code'', PInt 3), (''data'', revert_payload)]) ''data''
        = Inr (PStr ''0x08c379a0'') \<and>
      fromhex_str (strip_0x_prefix ''0x08c379a0'') = Some [8, 195, 121, 160]"
    by (simp add: revert_payload_def demo_revert_bytes)
  have gh: "py_getitem (PDict [(''code'', PInt 3), (''data'', PDict [(''data'', revert_payload)])]) ''data''
        = Inr (PDict [(''data'', revert_payload)]) \<and>
      py_getitem (PDict [(''data'', revert_payload)]) ''data'' = Inr (PStr ''0x08c379a0'') \<and>
      fromhex_str (strip_0x_prefix ''0x08c379a0'') = Some [8, 195, 121, 160]"
    by (simp add: revert_payload_def demo_revert_bytes)
  from revert_payload_depth [OF st pe fq ca] ga
  have 1: "map_option fst (error (demo_chain AnvilDevChain 0 demo_failure ''0x0'') ?s) =
      Some (revert_outcome (process_revert_data (demo_chain AnvilDevChain 0 demo_failure ''0x0'')
        (p_tx_hash ?s) [8, 195, 121, 160] ''Counter''))"
    by (simp add: demo_call)
  from revert_payload_depth [OF st pe fq ch] gh
  have 2: "map_option fst (error (demo_chain HardhatDevChain 0 demo_failure ''0x0'') ?s) =
      Some (revert_outcome (process_revert_data (demo_chain HardhatDevChain 0 demo_failure ''0x0'')
        (p_tx_hash ?s) [8, 195, 121, 160] ''Counter''))"
    by (simp add: demo_call)
  from revert_payload_depth [OF st pe fq co]
  have 3: "map_option fst (error (demo_chain OtherDevChain 0 demo_failure ''0x0'') ?s) =
     Some (Inl (JsonRpcError (PDict [(''code'', PInt 3), (''data'', revert_payload)])))"
    by (simp add: demo_call)
  from 1 2 3 show ?thesis by (simp add: demo_revert_outcome)
qed

text \<open>
  Claim C4 as stated fails for the third backend class of the source, Ganache, which has
  no full trace and no nested error payload: its revert payload is read at
  \<^verbatim>\<open>e["data"]\<close> like Anvil's, and the decoded revert error is returned.
\<close>

theorem minimal_variant_decodes_revert:
  "map_option fst (error (demo_chain GanacheDevChain 0 demo_failure ''0x0'')
      (demo_handle (PDict []) (Some ''Counter''))) = Some (Inr (Some demo_error))"
  by code_simp

end
